theory Spec2Isabelle
  imports Main "HOL-Library.Sublist" "HOL-Library.Char_ord" "HOL-Library.List_Lexorder"
    "HOL-Library.Word"
begin

section \<open>Values\<close>

text \<open>
  The values that \<^verbatim>\<open>json.loads\<close> produces and \<^verbatim>\<open>json.dumps\<close> consumes. A Python
  \<^verbatim>\<open>str\<close> is represented by its UTF-8 encoding, so \<^typ>\<open>string\<close> literals read as
  in the source, equality and concatenation are those of Python, and the bytewise
  lexicographic order is the code point order that \<^verbatim>\<open>sorted\<close> uses. A \<^verbatim>\<open>float\<close>
  is carried as its 64 bits: the program never computes with one. A \<^verbatim>\<open>dict\<close> is an
  association list in insertion order, looked up with \<^const>\<open>map_of\<close>.
\<close>

datatype json =
    JNull
  | JBool bool
  | JInt int
  | JFloat "64 word"
  | JStr string
  | JArr "json list"
  | JObj "(string \<times> json) list"

text \<open>\<^verbatim>\<open>d.get(k, default)\<close> on a dict, and \<^verbatim>\<open>k in d\<close>.\<close>

definition dict_get :: "(string \<times> json) list \<Rightarrow> string \<Rightarrow> json \<Rightarrow> json" where
  "dict_get d k dflt = (case map_of d k of Some v \<Rightarrow> v | None \<Rightarrow> dflt)"

fun has_key :: "json \<Rightarrow> string \<Rightarrow> bool" where
  "has_key (JObj d) k = (map_of d k \<noteq> None)"
| "has_key _ k = False"

text \<open>\<^verbatim>\<open>d[k]\<close> read as an option: \<open>None\<close> where Python raises.\<close>

fun item :: "json \<Rightarrow> string \<Rightarrow> json option" where
  "item (JObj d) k = map_of d k"
| "item _ k = None"

section \<open>Exceptions and effects\<close>

text \<open>
  An exception is its class and its \<^verbatim>\<open>str(e)\<close>. Every class here derives from
  \<^verbatim>\<open>Exception\<close>; the handlers of the source tell apart only \<^verbatim>\<open>UnicodeDecodeError\<close>
  and \<^verbatim>\<open>json.JSONDecodeError\<close>. Signals outside \<^verbatim>\<open>Exception\<close>
  (\<^verbatim>\<open>KeyboardInterrupt\<close>, \<^verbatim>\<open>SystemExit\<close>) are not modelled.
\<close>

datatype exc_class =
  AttributeError | TypeError | ValueError | RuntimeError | OSError
  | UnicodeDecodeError | JSONDecodeError

datatype py_exception = Exc exc_class string

fun exc_str :: "py_exception \<Rightarrow> string" where
  "exc_str (Exc c m) = m"

text \<open>
  A \<^verbatim>\<open>pathlib.Path\<close>: \<^verbatim>\<open>Path(s)\<close>, or an entry that \<^verbatim>\<open>iterdir\<close> yields, which is
  the directory's path and the entry's \<^verbatim>\<open>name\<close>.
\<close>

datatype path_obj = Path string | Child path_obj string

text \<open>The file system calls the tools make, in the order they make them.\<close>

datatype fs_call =
  Exists path_obj | IsDir path_obj | IsFile path_obj | Iterdir path_obj
  | Stat path_obj | Open path_obj | Read path_obj

text \<open>
  A computation returns a value or raises, and logs the file system calls it made.
\<close>

type_synonym 'a io = "(py_exception + 'a) \<times> fs_call list"

definition io_return :: "'a \<Rightarrow> 'a io" where
  "io_return x = (Inr x, [])"

definition io_raise :: "py_exception \<Rightarrow> 'a io" where
  "io_raise e = (Inl e, [])"

definition io_bind :: "'a io \<Rightarrow> ('a \<Rightarrow> 'b io) \<Rightarrow> 'b io" where
  "io_bind m f =
     (case m of
        (Inl e, t) \<Rightarrow> (Inl e, t)
      | (Inr x, t) \<Rightarrow> (case f x of (r, t') \<Rightarrow> (r, t @ t')))"

text \<open>\<^verbatim>\<open>try: m except Exception as e: h(e)\<close>.\<close>

definition io_catch :: "'a io \<Rightarrow> (py_exception \<Rightarrow> 'a io) \<Rightarrow> 'a io" where
  "io_catch m h =
     (case m of
        (Inl e, t) \<Rightarrow> (case h e of (r, t') \<Rightarrow> (r, t @ t'))
      | (Inr x, t) \<Rightarrow> (Inr x, t))"

text \<open>A file system call: logged, then its outcome.\<close>

definition fs :: "fs_call \<Rightarrow> py_exception + 'a \<Rightarrow> 'a io" where
  "fs c r = (r, [c])"

section \<open>The world outside the program\<close>

text \<open>
  What the interpreter, the JSON library and the file system answer. The file system is
  only read, so each answer is a function of the path. \<open>py_str\<close> is \<^verbatim>\<open>str(v)\<close> of a
  value that is not a \<^verbatim>\<open>str\<close>; \<open>path_type_error\<close> is the text of the \<^verbatim>\<open>TypeError\<close> that
  \<^verbatim>\<open>Path(v)\<close> raises on such a value; \<open>st_size\<close> is \<^verbatim>\<open>p.stat().st_size\<close>; \<open>open_utf8\<close> is
  \<^verbatim>\<open>open(p, 'r', encoding='utf-8')\<close> (\<open>None\<close> when it succeeds) and \<open>read_text\<close> is
  \<^verbatim>\<open>f.read()\<close> on the file it opened.
\<close>

record world =
  json_loads :: "string \<Rightarrow> py_exception + json"
  py_str :: "json \<Rightarrow> string"
  path_type_error :: "json \<Rightarrow> string"
  path_exists :: "path_obj \<Rightarrow> py_exception + bool"
  path_is_dir :: "path_obj \<Rightarrow> py_exception + bool"
  path_is_file :: "path_obj \<Rightarrow> py_exception + bool"
  path_iterdir :: "path_obj \<Rightarrow> py_exception + string list"
  st_size :: "path_obj \<Rightarrow> py_exception + nat"
  open_utf8 :: "path_obj \<Rightarrow> py_exception option"
  read_text :: "path_obj \<Rightarrow> py_exception + string"

section \<open>Built-ins\<close>

definition quoted :: "string \<Rightarrow> string" where
  "quoted s = CHR 0x27 # s @ [CHR 0x27]"

definition newline :: string where
  "newline = [CHR 0x0A]"

text \<open>\<^verbatim>\<open>f"{v}"\<close>: a \<^verbatim>\<open>str\<close> is itself, any other value is its \<^verbatim>\<open>str(v)\<close>.\<close>

fun fmt :: "world \<Rightarrow> json \<Rightarrow> string" where
  "fmt w (JStr s) = s"
| "fmt w v = py_str w v"

fun py_type_name :: "json \<Rightarrow> string" where
  "py_type_name JNull = ''NoneType''"
| "py_type_name (JBool b) = ''bool''"
| "py_type_name (JInt i) = ''int''"
| "py_type_name (JFloat f) = ''float''"
| "py_type_name (JStr s) = ''str''"
| "py_type_name (JArr xs) = ''list''"
| "py_type_name (JObj d) = ''dict''"

text \<open>\<^verbatim>\<open>v.get(k, default)\<close>: only a dict has the method.\<close>

fun py_get :: "json \<Rightarrow> string \<Rightarrow> json \<Rightarrow> json io" where
  "py_get (JObj d) k dflt = io_return (dict_get d k dflt)"
| "py_get v k dflt =
     io_raise (Exc AttributeError
       (quoted (py_type_name v) @ '' object has no attribute '' @ quoted ''get''))"

text \<open>\<^verbatim>\<open>Path(v)\<close>: a \<^verbatim>\<open>str\<close> is accepted, every other JSON value is a \<^verbatim>\<open>TypeError\<close>.\<close>

fun Path_of :: "world \<Rightarrow> json \<Rightarrow> path_obj io" where
  "Path_of w (JStr s) = io_return (Path s)"
| "Path_of w v = io_raise (Exc TypeError (path_type_error w v))"

text \<open>Decimal digits of a size, as \<^verbatim>\<open>f"{n}"\<close> prints them.\<close>

fun show_nat :: "nat \<Rightarrow> string" where
  "show_nat n =
     (if n < 10 then [char_of (48 + n)]
      else show_nat (n div 10) @ [char_of (48 + n mod 10)])"

declare show_nat.simps [simp del]

text \<open>\<^verbatim>\<open>sep.join(xs)\<close>.\<close>

fun join :: "string \<Rightarrow> string list \<Rightarrow> string" where
  "join sep [] = []"
| "join sep [x] = x"
| "join sep (x # y # ys) = x @ sep @ join sep (y # ys)"

section \<open>The server\<close>

text \<open>
  \<^verbatim>\<open>MCPServer.__init__\<close>: the object's only attribute is the registry \<^verbatim>\<open>self.tools\<close>,
  a dict from tool name to descriptor, in the order the literal lists them.
\<close>

record MCPServer =
  tools :: "(string \<times> json) list"

definition MCPServer_init :: MCPServer where
  "MCPServer_init =
     \<lparr>tools =
        [(''list_files'',
          JObj [(''name'', JStr ''list_files''),
                (''description'', JStr ''List files in a directory''),
                (''inputSchema'',
                 JObj [(''type'', JStr ''object''),
                       (''properties'',
                        JObj [(''path'',
                               JObj [(''type'', JStr ''string''),
                                     (''description'',
                                      JStr ''Directory path to list files from'')])]),
                       (''required'', JArr [JStr ''path''])])]),
         (''read_file'',
          JObj [(''name'', JStr ''read_file''),
                (''description'', JStr ''Read contents of a file''),
                (''inputSchema'',
                 JObj [(''type'', JStr ''object''),
                       (''properties'',
                        JObj [(''path'',
                               JObj [(''type'', JStr ''string''),
                                     (''description'', JStr ''File path to read'')])]),
                       (''required'', JArr [JStr ''path''])])])]\<rparr>"

subsection \<open>\<^verbatim>\<open>_list_files\<close>\<close>

text \<open>The two line formats; the leading characters are U+1F4C4 and U+1F4C1.\<close>

definition file_line :: "string \<Rightarrow> nat \<Rightarrow> string" where
  "file_line name sz =
     [CHR 0xF0, CHR 0x9F, CHR 0x93, CHR 0x84] @ '' '' @ name @ '' ('' @ show_nat sz
       @ '' bytes)''"

definition dir_line :: "string \<Rightarrow> string" where
  "dir_line name = [CHR 0xF0, CHR 0x9F, CHR 0x93, CHR 0x81] @ '' '' @ name @ ''/''"

text \<open>
  The \<^verbatim>\<open>for item in path_obj.iterdir()\<close> loop over the names still to visit, with the
  list \<^verbatim>\<open>files\<close> built so far. An entry that is neither a file nor a directory adds
  nothing.
\<close>

fun list_items :: "world \<Rightarrow> path_obj \<Rightarrow> string list \<Rightarrow> string list \<Rightarrow> string list io" where
  "list_items w p [] files = io_return files"
| "list_items w p (name # names) files =
     io_bind (fs (IsFile (Child p name)) (path_is_file w (Child p name))) (\<lambda>is_file.
       if is_file then
         io_bind (fs (Stat (Child p name)) (st_size w (Child p name))) (\<lambda>sz.
           list_items w p names (files @ [file_line name sz]))
       else
         io_bind (fs (IsDir (Child p name)) (path_is_dir w (Child p name))) (\<lambda>is_dir.
           if is_dir then list_items w p names (files @ [dir_line name])
           else list_items w p names files))"

text \<open>The body of the \<^verbatim>\<open>try\<close>.\<close>

definition list_files_try :: "world \<Rightarrow> json \<Rightarrow> string io" where
  "list_files_try w path =
     io_bind (Path_of w path) (\<lambda>path_obj.
     io_bind (fs (Exists path_obj) (path_exists w path_obj)) (\<lambda>exists.
       if \<not> exists then
         io_return (''Error: Path '' @ quoted (fmt w path) @ '' does not exist'')
       else
         io_bind (fs (IsDir path_obj) (path_is_dir w path_obj)) (\<lambda>is_dir.
           if \<not> is_dir then
             io_return (''Error: Path '' @ quoted (fmt w path) @ '' is not a directory'')
           else
             io_bind (fs (Iterdir path_obj) (path_iterdir w path_obj)) (\<lambda>names.
             io_bind (list_items w path_obj names []) (\<lambda>files.
               if files = [] then
                 io_return (''Directory '' @ quoted (fmt w path) @ '' is empty'')
               else
                 io_return (''Contents of '' @ quoted (fmt w path) @ '':'' @ newline
                   @ join newline (sort files)))))))"

definition list_files :: "world \<Rightarrow> json \<Rightarrow> string io" where
  "list_files w path =
     io_catch (list_files_try w path)
       (\<lambda>e. io_return (''Error listing files: '' @ exc_str e))"

subsection \<open>\<^verbatim>\<open>_read_file\<close>\<close>

definition read_file_try :: "world \<Rightarrow> json \<Rightarrow> string io" where
  "read_file_try w path =
     io_bind (Path_of w path) (\<lambda>path_obj.
     io_bind (fs (Exists path_obj) (path_exists w path_obj)) (\<lambda>exists.
       if \<not> exists then
         io_return (''Error: File '' @ quoted (fmt w path) @ '' does not exist'')
       else
         io_bind (fs (IsFile path_obj) (path_is_file w path_obj)) (\<lambda>is_file.
           if \<not> is_file then
             io_return (''Error: '' @ quoted (fmt w path) @ '' is not a file'')
           else
             io_bind (fs (Stat path_obj) (st_size w path_obj)) (\<lambda>sz.
               if sz > 1024 * 1024 then
                 io_return (''Error: File '' @ quoted (fmt w path)
                   @ '' is too large (max 1MB)'')
               else
                 io_bind (fs (Open path_obj)
                            (case open_utf8 w path_obj of
                               Some e \<Rightarrow> Inl e | None \<Rightarrow> Inr ())) (\<lambda>f.
                 io_bind (fs (Read path_obj) (read_text w path_obj)) (\<lambda>content.
                   io_return (''Contents of '' @ quoted (fmt w path) @ '':'' @ newline
                     @ newline @ content)))))))"

text \<open>
  The two handlers, in the source's order: \<^verbatim>\<open>except UnicodeDecodeError\<close>, then
  \<^verbatim>\<open>except Exception as e\<close>.
\<close>

definition read_file :: "world \<Rightarrow> json \<Rightarrow> string io" where
  "read_file w path =
     io_catch (read_file_try w path)
       (\<lambda>e. case e of
          Exc UnicodeDecodeError m \<Rightarrow>
            io_return (''Error: Cannot read '' @ quoted (fmt w path)
              @ '' - appears to be a binary file'')
        | _ \<Rightarrow> io_return (''Error reading file: '' @ exc_str e))"

subsection \<open>\<^verbatim>\<open>handle_request\<close>\<close>

text \<open>The body of the \<^verbatim>\<open>try\<close>, given the three values read from the request.\<close>

definition handle_request_try ::
  "world \<Rightarrow> MCPServer \<Rightarrow> json \<Rightarrow> json \<Rightarrow> json \<Rightarrow> json io" where
  "handle_request_try w self method params request_id =
     (if method = JStr ''initialize'' then
        io_return (JObj
          [(''jsonrpc'', JStr ''2.0''),
           (''id'', request_id),
           (''result'', JObj
              [(''protocolVersion'', JStr ''2024-11-05''),
               (''capabilities'', JObj [(''tools'', JObj [])]),
               (''serverInfo'', JObj
                  [(''name'', JStr ''file-manager-server''),
                   (''version'', JStr ''1.0.0'')])])])
      else if method = JStr ''tools/list'' then
        io_return (JObj
          [(''jsonrpc'', JStr ''2.0''),
           (''id'', request_id),
           (''result'', JObj [(''tools'', JArr (map snd (tools self)))])])
      else if method = JStr ''tools/call'' then
        io_bind (py_get params ''name'' JNull) (\<lambda>tool_name.
        io_bind (py_get params ''arguments'' (JObj [])) (\<lambda>arguments.
        io_bind
          (if tool_name = JStr ''list_files'' then
             io_bind (py_get arguments ''path'' (JStr ''.'')) (list_files w)
           else if tool_name = JStr ''read_file'' then
             io_bind (py_get arguments ''path'' JNull) (read_file w)
           else io_raise (Exc ValueError (''Unknown tool: '' @ fmt w tool_name)))
          (\<lambda>result.
             io_return (JObj
               [(''jsonrpc'', JStr ''2.0''),
                (''id'', request_id),
                (''result'', JObj
                   [(''content'', JArr
                      [JObj [(''type'', JStr ''text''), (''text'', JStr result)]])])]))))
      else
        io_return (JObj
          [(''jsonrpc'', JStr ''2.0''),
           (''id'', request_id),
           (''error'', JObj
              [(''code'', JInt (- 32601)),
               (''message'', JStr (''Method not found: '' @ fmt w method))])]))"

text \<open>
  The three \<^verbatim>\<open>request.get\<close> calls stand before the \<^verbatim>\<open>try\<close>: on a request that is
  not a dict their \<^verbatim>\<open>AttributeError\<close> leaves the function.
\<close>

definition handle_request :: "world \<Rightarrow> MCPServer \<Rightarrow> json \<Rightarrow> json io" where
  "handle_request w self request =
     io_bind (py_get request ''method'' JNull) (\<lambda>method.
     io_bind (py_get request ''params'' (JObj [])) (\<lambda>params.
     io_bind (py_get request ''id'' JNull) (\<lambda>request_id.
       io_catch (handle_request_try w self method params request_id)
         (\<lambda>e. io_return (JObj
            [(''jsonrpc'', JStr ''2.0''),
             (''id'', request_id),
             (''error'', JObj
                [(''code'', JInt (- 32603)),
                 (''message'', JStr (''Internal error: '' @ exc_str e))])])))))"

subsection \<open>\<^verbatim>\<open>run\<close>\<close>

text \<open>
  \<^verbatim>\<open>str.strip()\<close> removes leading and trailing white space: the code points for which
  \<^verbatim>\<open>str.isspace\<close> holds, here in UTF-8 (U+0009 to U+000D, U+001C to U+0020, U+0085,
  U+00A0, U+1680, U+2000 to U+200A, U+2028, U+2029, U+202F, U+205F, U+3000).
\<close>

definition whitespace :: "string list" where
  "whitespace =
     [[CHR 0x09], [CHR 0x0A], [CHR 0x0B], [CHR 0x0C], [CHR 0x0D],
      [CHR 0x1C], [CHR 0x1D], [CHR 0x1E], [CHR 0x1F], [CHR 0x20],
      [CHR 0xC2, CHR 0x85], [CHR 0xC2, CHR 0xA0], [CHR 0xE1, CHR 0x9A, CHR 0x80],
      [CHR 0xE2, CHR 0x80, CHR 0x80], [CHR 0xE2, CHR 0x80, CHR 0x81],
      [CHR 0xE2, CHR 0x80, CHR 0x82], [CHR 0xE2, CHR 0x80, CHR 0x83],
      [CHR 0xE2, CHR 0x80, CHR 0x84], [CHR 0xE2, CHR 0x80, CHR 0x85],
      [CHR 0xE2, CHR 0x80, CHR 0x86], [CHR 0xE2, CHR 0x80, CHR 0x87],
      [CHR 0xE2, CHR 0x80, CHR 0x88], [CHR 0xE2, CHR 0x80, CHR 0x89],
      [CHR 0xE2, CHR 0x80, CHR 0x8A], [CHR 0xE2, CHR 0x80, CHR 0xA8],
      [CHR 0xE2, CHR 0x80, CHR 0xA9], [CHR 0xE2, CHR 0x80, CHR 0xAF],
      [CHR 0xE2, CHR 0x81, CHR 0x9F], [CHR 0xE3, CHR 0x80, CHR 0x80]]"

text \<open>The length of the white space character a string starts with, 0 when it has none.\<close>

definition ws_len :: "string list \<Rightarrow> string \<Rightarrow> nat" where
  "ws_len seqs s = (case filter (\<lambda>ws. prefix ws s) seqs of [] \<Rightarrow> 0 | ws # _ \<Rightarrow> length ws)"

function strip_left :: "string list \<Rightarrow> string \<Rightarrow> string" where
  "strip_left seqs s =
     (if ws_len seqs s = 0 then s else strip_left seqs (drop (ws_len seqs s) s))"
  by pat_completeness auto

termination
proof (relation "measure (\<lambda>(seqs, s). length s)")
  show "wf (measure (\<lambda>(seqs, s). length s))" by simp
next
  fix seqs :: "string list" and s :: string
  assume n: "ws_len seqs s \<noteq> 0"
  have "s \<noteq> []"
  proof
    assume e: "s = []"
    show False
    proof (cases "filter (\<lambda>ws. prefix ws s) seqs")
      case Nil
      with n show False by (simp add: ws_len_def)
    next
      case (Cons ws rest)
      then have "ws \<in> set (filter (\<lambda>ws. prefix ws s) seqs)" by simp
      then have "prefix ws s" by simp
      with e have "ws = []" by simp
      with Cons n show False by (simp add: ws_len_def)
    qed
  qed
  with n show "((seqs, drop (ws_len seqs s) s), (seqs, s)) \<in> measure (\<lambda>(seqs, s). length s)"
    by simp
qed

declare strip_left.simps [simp del]

definition strip :: "string \<Rightarrow> string" where
  "strip s = rev (strip_left (map rev whitespace) (rev (strip_left whitespace s)))"

text \<open>
  What the server writes to standard output: \<^verbatim>\<open>print(json.dumps(v))\<close> and
  \<^verbatim>\<open>sys.stdout.flush()\<close>. The two banners go to standard error and are left out.
\<close>

datatype stdout_event = Print json | Flush

text \<open>
  The body of the \<^verbatim>\<open>for line in sys.stdin\<close> loop: what one line writes, or the
  exception that leaves the loop. The \<^verbatim>\<open>except\<close> clause takes
  \<^verbatim>\<open>json.JSONDecodeError\<close> only.
\<close>

definition run_line :: "world \<Rightarrow> MCPServer \<Rightarrow> string \<Rightarrow> py_exception + stdout_event list" where
  "run_line w self line0 =
     (let line = strip line0 in
      if line = [] then Inr []
      else
        (case (case json_loads w line of
                 Inl e \<Rightarrow> Inl e
               | Inr request \<Rightarrow>
                   (case fst (handle_request w self request) of
                      Inl e \<Rightarrow> Inl e
                    | Inr response \<Rightarrow> Inr [Print response, Flush])) of
           Inl (Exc JSONDecodeError m) \<Rightarrow>
             Inr [Print (JObj
                    [(''jsonrpc'', JStr ''2.0''),
                     (''id'', JNull),
                     (''error'', JObj
                        [(''code'', JInt (- 32700)),
                         (''message'', JStr (''Parse error: '' @ m))])]),
                  Flush]
         | Inl e \<Rightarrow> Inl e
         | Inr out \<Rightarrow> Inr out))"

text \<open>
  The loop over the lines of standard input: the output written, and the exception that
  ended the loop early, if any.
\<close>

fun run :: "world \<Rightarrow> MCPServer \<Rightarrow> string list \<Rightarrow> stdout_event list \<times> py_exception option" where
  "run w self [] = ([], None)"
| "run w self (line # lines) =
     (case run_line w self line of
        Inl e \<Rightarrow> ([], Some e)
      | Inr out \<Rightarrow> (case run w self lines of (rest, r) \<Rightarrow> (out @ rest, r)))"

section \<open>The client\<close>

text \<open>
  The child process and its pipes, as the client sees them: a state \<^typ>\<open>'p\<close> that each
  call advances. \<open>popen\<close> is \<^verbatim>\<open>subprocess.Popen\<close> on the command; \<open>stdin_write\<close> is
  \<^verbatim>\<open>process.stdin.write(json.dumps(request) + "\n")\<close> with the \<^verbatim>\<open>flush\<close> after it
  (\<open>None\<close> when neither raises); \<open>stdout_readline\<close> is \<^verbatim>\<open>process.stdout.readline()\<close>.
\<close>

record 'p peer =
  popen :: "string \<Rightarrow> py_exception + 'p"
  stdin_write :: "'p \<Rightarrow> json \<Rightarrow> py_exception option \<times> 'p"
  stdout_readline :: "'p \<Rightarrow> (py_exception + string) \<times> 'p"
  response_loads :: "string \<Rightarrow> py_exception + json"

record 'p MCPClient =
  server_command :: string
  process :: "'p option"
  request_id :: int

definition MCPClient_init :: "string \<Rightarrow> 'p MCPClient" where
  "MCPClient_init cmd = \<lparr>server_command = cmd, process = None, request_id = 1\<rparr>"

definition start_server :: "'p peer \<Rightarrow> 'p MCPClient \<Rightarrow> bool \<times> 'p MCPClient" where
  "start_server pr self =
     (case popen pr (server_command self) of
        Inr p \<Rightarrow> (True, self\<lparr>process := Some p\<rparr>)
      | Inl e \<Rightarrow> (False, self))"

text \<open>
  \<^verbatim>\<open>send_request\<close> returns the response or raises, leaves the client in a new state,
  and the third component lists what it passed to \<^verbatim>\<open>process.stdin.write\<close>.
  \<^verbatim>\<open>params\<close> is \<open>None\<close> or a dict; \<^verbatim>\<open>if params\<close> holds for a dict that is not empty.
\<close>

definition send_request ::
  "'p peer \<Rightarrow> 'p MCPClient \<Rightarrow> string \<Rightarrow> (string \<times> json) list option
     \<Rightarrow> (py_exception + json) \<times> 'p MCPClient \<times> json list" where
  "send_request pr self method params =
     (case process self of
        None \<Rightarrow> (Inl (Exc RuntimeError ''Server not started''), self, [])
      | Some p \<Rightarrow>
          (let request0 =
                 [(''jsonrpc'', JStr ''2.0''),
                  (''id'', JInt (request_id self)),
                  (''method'', JStr method)];
               request =
                 (case params of
                    None \<Rightarrow> request0
                  | Some d \<Rightarrow> if d \<noteq> [] then request0 @ [(''params'', JObj d)] else request0);
               self1 = self\<lparr>request_id := request_id self + 1\<rparr>
           in case stdin_write pr p (JObj request) of
                (Some e, p1) \<Rightarrow> (Inl e, self1\<lparr>process := Some p1\<rparr>, [JObj request])
              | (None, p1) \<Rightarrow>
                  (case stdout_readline pr p1 of
                     (Inl e, p2) \<Rightarrow> (Inl e, self1\<lparr>process := Some p2\<rparr>, [JObj request])
                   | (Inr response_line, p2) \<Rightarrow>
                       (if response_line = [] then
                          Inl (Exc RuntimeError ''No response from server'')
                        else response_loads pr (strip response_line),
                        self1\<lparr>process := Some p2\<rparr>, [JObj request]))))"

text \<open>
  Successive calls on one client. A call that raises leaves the client as it then is;
  the callers (\<^verbatim>\<open>initialize\<close>, \<^verbatim>\<open>list_tools\<close>, \<^verbatim>\<open>call_tool\<close>) catch the exception and
  the session goes on. The result is everything written to the server, in order, and the
  final client.
\<close>

fun send_requests ::
  "'p peer \<Rightarrow> 'p MCPClient \<Rightarrow> (string \<times> (string \<times> json) list option) list
     \<Rightarrow> json list \<times> 'p MCPClient" where
  "send_requests pr self [] = ([], self)"
| "send_requests pr self ((method, params) # calls) =
     (case send_request pr self method params of
        (r, self1, sent) \<Rightarrow>
          (case send_requests pr self1 calls of
             (sents, self2) \<Rightarrow> (sent @ sents, self2)))"

section \<open>An example world\<close>

text \<open>
  A small world to run the definitions in. Its file system has the directory \<^verbatim>\<open>.\<close> with
  the file \<^verbatim>\<open>a.txt\<close> of 10 bytes and the directory \<^verbatim>\<open>sub\<close>, and beside them a file of
  1,048,576 bytes, one of 1,048,577 bytes, and a file that does not decode as UTF-8.
\<close>

datatype node = File nat "py_exception + string" | Dir "string list"

definition mebibyte_text :: string where
  "mebibyte_text = replicate (1024 * 1024) (CHR ''x'')"

definition invalid_start_byte :: string where
  "invalid_start_byte =
     quoted ''utf-8'' @ '' codec can'' @ [CHR 0x27]
       @ ''t decode byte 0xff in position 0: invalid start byte''"

definition example_fs :: "path_obj \<Rightarrow> node option" where
  "example_fs p =
     (if p = Path ''.'' then Some (Dir [''sub'', ''a.txt''])
      else if p = Child (Path ''.'') ''a.txt'' \<or> p = Path ''a.txt'' then
        Some (File 10 (Inr ''0123456789''))
      else if p = Child (Path ''.'') ''sub'' \<or> p = Path ''sub'' then Some (Dir [])
      else if p = Path ''exact.txt'' then Some (File 1048576 (Inr mebibyte_text))
      else if p = Path ''big.txt'' then Some (File 1048577 (Inr (mebibyte_text @ ''x'')))
      else if p = Path ''photo.bin'' then
        Some (File 4 (Inl (Exc UnicodeDecodeError invalid_start_byte)))
      else None)"

text \<open>
  The lines the example's \<^verbatim>\<open>json.loads\<close> is asked about; any other line is answered as
  the library answers a line that starts no JSON value.
\<close>

definition initialize_line :: string where
  \<open>initialize_line = ''{"jsonrpc":"2.0","id":1,"method":"initialize"}''\<close>

definition tools_list_line :: string where
  \<open>tools_list_line = ''{"jsonrpc":"2.0","id":2,"method":"tools/list"}''\<close>

definition example_documents :: "(string \<times> (py_exception + json)) list" where
  "example_documents =
     [(initialize_line,
       Inr (JObj [(''jsonrpc'', JStr ''2.0''), (''id'', JInt 1),
                  (''method'', JStr ''initialize'')])),
      (tools_list_line,
       Inr (JObj [(''jsonrpc'', JStr ''2.0''), (''id'', JInt 2),
                  (''method'', JStr ''tools/list'')])),
      (''{}'', Inr (JObj [])),
      (''[]'', Inr (JArr [])),
      (''{'', Inl (Exc JSONDecodeError
         ''Expecting property name enclosed in double quotes: line 1 column 2 (char 1)''))]"

definition example_world :: world where
  "example_world =
     \<lparr>json_loads = (\<lambda>line. case map_of example_documents line of
          Some r \<Rightarrow> r
        | None \<Rightarrow> Inl (Exc JSONDecodeError ''Expecting value: line 1 column 1 (char 0)'')),
      py_str = (\<lambda>v. case v of
          JNull \<Rightarrow> ''None''
        | JBool b \<Rightarrow> (if b then ''True'' else ''False'')
        | JInt i \<Rightarrow> (if i < 0 then ''-'' @ show_nat (nat (- i)) else show_nat (nat i))
        | _ \<Rightarrow> ''<'' @ py_type_name v @ ''>''),
      path_type_error = (\<lambda>v.
          ''argument should be a str or an os.PathLike object where __fspath__ returns a str, not ''
            @ quoted (py_type_name v)),
      path_exists = (\<lambda>p. Inr (example_fs p \<noteq> None)),
      path_is_dir = (\<lambda>p. Inr (case example_fs p of Some (Dir names) \<Rightarrow> True | _ \<Rightarrow> False)),
      path_is_file = (\<lambda>p. Inr (case example_fs p of Some (File n c) \<Rightarrow> True | _ \<Rightarrow> False)),
      path_iterdir = (\<lambda>p. case example_fs p of
          Some (Dir names) \<Rightarrow> Inr names
        | _ \<Rightarrow> Inl (Exc OSError ''[Errno 20] Not a directory'')),
      st_size = (\<lambda>p. case example_fs p of
          Some (File n c) \<Rightarrow> Inr n
        | Some (Dir names) \<Rightarrow> Inr 4096
        | None \<Rightarrow> Inl (Exc OSError ''[Errno 2] No such file or directory'')),
      open_utf8 = (\<lambda>p. case example_fs p of
          Some (File n c) \<Rightarrow> None
        | Some (Dir names) \<Rightarrow> Some (Exc OSError ''[Errno 21] Is a directory'')
        | None \<Rightarrow> Some (Exc OSError ''[Errno 2] No such file or directory'')),
      read_text = (\<lambda>p. case example_fs p of
          Some (File n c) \<Rightarrow> c
        | _ \<Rightarrow> Inl (Exc OSError ''[Errno 9] Bad file descriptor''))\<rparr>"

text \<open>
  A peer for the client: the process state counts the lines written to it, and it
  answers every line with an empty JSON object.
\<close>

definition example_peer :: "nat peer" where
  "example_peer =
     \<lparr>popen = (\<lambda>cmd. Inr 0),
      stdin_write = (\<lambda>p request. (None, Suc p)),
      stdout_readline = (\<lambda>p. (Inr (''{}'' @ newline), p)),
      response_loads = (\<lambda>line. if line = ''{}'' then Inr (JObj [])
         else Inl (Exc JSONDecodeError ''Expecting value: line 1 column 1 (char 0)''))\<rparr>"

section \<open>Laws of the effect combinators\<close>

lemma io_bind_return [simp]: "io_bind (io_return x) f = f x"
  by (simp add: io_bind_def io_return_def split: prod.splits)

lemma io_bind_raise [simp]: "io_bind (io_raise e) f = io_raise e"
  by (simp add: io_bind_def io_raise_def)

lemma io_bind_Inl_pair [simp]: "io_bind (Inl e, t) f = (Inl e, t)"
  by (simp add: io_bind_def)

lemma io_bind_Inr_pair [simp]:
  "io_bind (Inr x, t) f = (case f x of (r, t') \<Rightarrow> (r, t @ t'))"
  by (simp add: io_bind_def)

lemma io_catch_return [simp]: "io_catch (io_return x) h = io_return x"
  by (simp add: io_catch_def io_return_def)

lemma io_catch_Inr_pair [simp]: "io_catch (Inr x, t) h = (Inr x, t)"
  by (simp add: io_catch_def)

lemma io_catch_Inl_pair [simp]:
  "io_catch (Inl e, t) h = (case h e of (r, t') \<Rightarrow> (r, t @ t'))"
  by (simp add: io_catch_def)

lemma io_bind_Inr:
  "io_bind m f = (Inr y, t) \<longleftrightarrow>
     (\<exists>x t1 t2. m = (Inr x, t1) \<and> f x = (Inr y, t2) \<and> t = t1 @ t2)"
proof (cases m)
  case (Pair r t1)
  show ?thesis
  proof (cases r)
    case (Inl e)
    with Pair show ?thesis by (simp add: io_bind_def)
  next
    case (Inr x)
    with Pair show ?thesis by (cases "f x") (auto simp: io_bind_def)
  qed
qed

text \<open>A \<^verbatim>\<open>try\<close> whose handler always returns: the whole returns.\<close>

lemma io_catch_total:
  assumes "\<And>e. \<exists>x t. h e = (Inr x, t) \<and> P x"
    and "\<And>x t. m = (Inr x, t) \<Longrightarrow> P x"
  shows "\<exists>x t. io_catch m h = (Inr x, t) \<and> P x"
proof (cases m)
  case (Pair r t)
  show ?thesis
  proof (cases r)
    case (Inl e)
    from assms(1) [of e] obtain x t' where "h e = (Inr x, t')" "P x" by blast
    with Pair Inl show ?thesis by (simp add: io_catch_def)
  next
    case (Inr x)
    with Pair assms(2) show ?thesis by (simp add: io_catch_def)
  qed
qed

section \<open>The shape of a response\<close>

lemma handle_request_try_shape:
  assumes "handle_request_try w self method params rid = (Inr response, t)"
  shows "has_key response ''result'' \<noteq> has_key response ''error''"
  using assms
  by (auto simp: handle_request_try_def io_return_def io_bind_Inr split: if_splits)

text \<open>
  C1. For every request object, whatever its method, \<^verbatim>\<open>handle_request\<close> returns a
  response, and the response has exactly one of the keys \<^verbatim>\<open>result\<close> and \<^verbatim>\<open>error\<close>.
\<close>

theorem handle_request_result_xor_error:
  "\<exists>response t. handle_request w self (JObj d) = (Inr response, t)
     \<and> (has_key response ''result'' \<noteq> has_key response ''error'')"
  unfolding handle_request_def py_get.simps io_bind_return
  by (rule io_catch_total) (auto simp: io_return_def dest: handle_request_try_shape)

theorem handle_request_result_xor_error_witness:
  "\<exists>response t.
     handle_request example_world MCPServer_init
       (JObj [(''jsonrpc'', JStr ''2.0''), (''id'', JInt 1), (''method'', JStr ''initialize'')])
       = (Inr response, t)
     \<and> (has_key response ''result'' \<noteq> has_key response ''error'')"
  using handle_request_result_xor_error
    [of example_world MCPServer_init
      "[(''jsonrpc'', JStr ''2.0''), (''id'', JInt 1), (''method'', JStr ''initialize'')]"]
  by simp

section \<open>The id of a response\<close>

lemma handle_request_try_id:
  assumes "handle_request_try w self method params rid = (Inr response, t)"
  shows "item response ''id'' = Some rid"
  using assms
  by (auto simp: handle_request_try_def io_return_def io_bind_Inr split: if_splits)

lemma handle_request_id:
  "\<exists>response t. handle_request w self (JObj d) = (Inr response, t)
     \<and> item response ''id'' = Some (dict_get d ''id'' JNull)"
  unfolding handle_request_def py_get.simps io_bind_return
  by (rule io_catch_total) (auto simp: io_return_def dest: handle_request_try_id)

lemma run_line_parse_error:
  assumes "strip line \<noteq> []" and "json_loads w (strip line) = Inl (Exc JSONDecodeError m)"
  shows "run_line w self line =
     Inr [Print (JObj
            [(''jsonrpc'', JStr ''2.0''),
             (''id'', JNull),
             (''error'', JObj
                [(''code'', JInt (- 32700)),
                 (''message'', JStr (''Parse error: '' @ m))])]),
          Flush]"
  using assms by (simp add: run_line_def Let_def)

lemma run_line_object:
  assumes "strip line \<noteq> []" and "json_loads w (strip line) = Inr (JObj d)"
  shows "\<exists>response t. handle_request w self (JObj d) = (Inr response, t)
     \<and> run_line w self line = Inr [Print response, Flush]"
proof -
  from handle_request_id [of w self d] obtain response t
    where h: "handle_request w self (JObj d) = (Inr response, t)" by blast
  with assms have "run_line w self line = Inr [Print response, Flush]"
    by (simp add: run_line_def Let_def)
  with h show ?thesis by blast
qed

text \<open>\<^const>\<open>strip\<close> on the lines of the examples.\<close>

lemma strip_brace: "strip ''{'' = ''{''"
  by (simp add: strip_def strip_left.simps ws_len_def whitespace_def)

lemma strip_nl: "strip newline = []"
  by (simp add: strip_def strip_left.simps ws_len_def whitespace_def newline_def)

lemma strip_obj_nl: "strip (CHR ''{'' # CHR ''}'' # newline) = ''{}''"
  by (simp add: strip_def strip_left.simps ws_len_def whitespace_def newline_def)

lemma strip_obj: "strip ''{}'' = ''{}''"
  by (simp add: strip_def strip_left.simps ws_len_def whitespace_def)

lemma strip_arr: "strip ''[]'' = ''[]''"
  by (simp add: strip_def strip_left.simps ws_len_def whitespace_def)

lemma strip_tools_list_line: "strip (tools_list_line @ newline) = tools_list_line"
  by (simp add: strip_def strip_left.simps ws_len_def whitespace_def newline_def
      tools_list_line_def)

text \<open>What the example's \<^verbatim>\<open>json.loads\<close> answers.\<close>

lemma example_loads_obj: "json_loads example_world ''{}'' = Inr (JObj [])"
  by (simp add: example_world_def example_documents_def initialize_line_def
      tools_list_line_def)

lemma example_loads_arr: "json_loads example_world ''[]'' = Inr (JArr [])"
  by (simp add: example_world_def example_documents_def initialize_line_def
      tools_list_line_def)

lemma example_loads_brace:
  "json_loads example_world ''{'' = Inl (Exc JSONDecodeError
     ''Expecting property name enclosed in double quotes: line 1 column 2 (char 1)'')"
  by (simp add: example_world_def example_documents_def initialize_line_def
      tools_list_line_def)

lemma example_loads_tools_list:
  "json_loads example_world tools_list_line =
     Inr (JObj [(''jsonrpc'', JStr ''2.0''), (''id'', JInt 2),
                (''method'', JStr ''tools/list'')])"
  by (simp add: example_world_def example_documents_def)
    (simp add: initialize_line_def tools_list_line_def)

text \<open>
  C2. The response to a request object carries the request's \<^verbatim>\<open>id\<close>, or null when the
  request has none, whether it is a result or an error; and a line that does not parse
  as JSON is answered by an error response whose \<^verbatim>\<open>id\<close> is null.
\<close>

theorem response_id_echo:
  "(\<exists>response t. handle_request w self (JObj d) = (Inr response, t)
      \<and> item response ''id'' = Some (dict_get d ''id'' JNull))
   \<and> (strip line \<noteq> [] \<longrightarrow> json_loads w (strip line) = Inl (Exc JSONDecodeError m) \<longrightarrow>
        (\<exists>response. run_line w self line = Inr [Print response, Flush]
           \<and> has_key response ''error'' \<and> item response ''id'' = Some JNull))"
  using handle_request_id [of w self d] run_line_parse_error [of line w m self]
  by simp

theorem response_id_echo_witness:
  "(\<exists>response t.
      handle_request example_world MCPServer_init
        (JObj [(''id'', JInt 7), (''method'', JStr ''tools/list'')]) = (Inr response, t)
      \<and> item response ''id'' = Some (JInt 7))
   \<and> strip ''{'' \<noteq> []
   \<and> (\<exists>m. json_loads example_world (strip ''{'') = Inl (Exc JSONDecodeError m))
   \<and> (\<exists>response. run_line example_world MCPServer_init ''{'' = Inr [Print response, Flush]
         \<and> has_key response ''error'' \<and> item response ''id'' = Some JNull)"
  using response_id_echo
    [of example_world MCPServer_init "[(''id'', JInt 7), (''method'', JStr ''tools/list'')]"
      "''{''"
      "''Expecting property name enclosed in double quotes: line 1 column 2 (char 1)''"]
  by (simp add: strip_brace example_loads_brace dict_get_def)

section \<open>One response for each request line\<close>

lemma run_line_answered:
  assumes "strip line = [] \<or> (\<exists>m. json_loads w (strip line) = Inl (Exc JSONDecodeError m))
     \<or> (\<exists>d. json_loads w (strip line) = Inr (JObj d))"
  shows "\<exists>out. run_line w self line = Inr out
     \<and> (if strip line = [] then out = [] else (\<exists>response. out = [Print response, Flush]))"
proof (cases "strip line = []")
  case True
  then show ?thesis by (simp add: run_line_def)
next
  case False
  with assms consider
    (bad) m where "json_loads w (strip line) = Inl (Exc JSONDecodeError m)"
    | (obj) d where "json_loads w (strip line) = Inr (JObj d)"
    by blast
  then show ?thesis
  proof cases
    case bad
    with False run_line_parse_error [of line w m self] show ?thesis by simp
  next
    case obj
    with False run_line_object [of line w d self] show ?thesis by auto
  qed
qed

lemma run_append:
  "run w self (xs @ ys) =
     (case run w self xs of
        (out, None) \<Rightarrow> (case run w self ys of (out', r) \<Rightarrow> (out @ out', r))
      | (out, Some e) \<Rightarrow> (out, Some e))"
  by (induction xs) (auto split: sum.splits prod.splits option.splits)

text \<open>
  A line that parses to a JSON value other than an object ends the loop: the
  \<^verbatim>\<open>AttributeError\<close> of \<^verbatim>\<open>request.get\<close> is raised outside the \<^verbatim>\<open>try\<close> of
  \<^verbatim>\<open>handle_request\<close>, and \<^verbatim>\<open>run\<close> catches \<^verbatim>\<open>JSONDecodeError\<close> only. Nothing is written
  for that line nor for the lines after it.
\<close>

lemma run_non_object_line:
  "run example_world MCPServer_init [''[]'', ''{}''] =
     ([], Some (Exc AttributeError
        (quoted ''list'' @ '' object has no attribute '' @ quoted ''get'')))"
  by (simp add: run_line_def Let_def strip_arr example_loads_arr handle_request_def
      io_raise_def)

text \<open>
  So does a line on which \<^verbatim>\<open>json.loads\<close> raises an exception of another class than
  \<^verbatim>\<open>JSONDecodeError\<close>: the exception leaves the loop and nothing is written for the line.
\<close>

lemma run_line_other_exception:
  assumes "strip line \<noteq> []" and "json_loads w (strip line) = Inl (Exc c m)"
    and "c \<noteq> JSONDecodeError"
  shows "run_line w self line = Inl (Exc c m)"
  using assms by (cases c) (simp_all add: run_line_def Let_def)

lemma example_before:
  "run example_world MCPServer_init [newline, ''{''] =
     ([Print (JObj
         [(''jsonrpc'', JStr ''2.0''),
          (''id'', JNull),
          (''error'', JObj
             [(''code'', JInt (- 32700)),
              (''message'', JStr (''Parse error: ''
                 @ ''Expecting property name enclosed in double quotes: line 1 column 2 (char 1)''))])]),
       Flush], None)"
  by (simp add: run_line_def Let_def strip_nl strip_brace example_loads_brace)

text \<open>
  C3, as the code has it. Take a line that the loop reads, that is, the lines before
  it did not end the loop. When the line is blank after \<^verbatim>\<open>strip\<close>, nothing is written
  for it. When \<^verbatim>\<open>json.loads\<close> raises \<^verbatim>\<open>json.JSONDecodeError\<close> on it, or returns a JSON
  object, exactly one response is written for it, followed at once by a flush; it comes
  right after what the earlier lines wrote and before anything the later lines write,
  whatever the later lines are.
\<close>

theorem run_answers_each_request_line:
  assumes "run w self before = (out0, None)"
    and "strip line = [] \<or> (\<exists>m. json_loads w (strip line) = Inl (Exc JSONDecodeError m))
     \<or> (\<exists>d. json_loads w (strip line) = Inr (JObj d))"
  shows "\<exists>out.
     (if strip line = [] then out = [] else (\<exists>response. out = [Print response, Flush]))
     \<and> run w self (before @ [line]) = (out0 @ out, None)
     \<and> run w self (before @ line # rest)
        = (out0 @ out @ fst (run w self rest), snd (run w self rest))"
proof -
  from assms(2) run_line_answered [of line w self] obtain out
    where o: "run_line w self line = Inr out"
      and s: "if strip line = [] then out = [] else (\<exists>response. out = [Print response, Flush])"
    by blast
  from o have 1: "run w self [line] = (out, None)" by simp
  from o have 2: "run w self (line # rest) = (out @ fst (run w self rest), snd (run w self rest))"
    by (simp split: prod.splits)
  from assms(1) 1 have 3: "run w self (before @ [line]) = (out0 @ out, None)"
    by (simp add: run_append)
  from assms(1) 2 have 4: "run w self (before @ line # rest)
        = (out0 @ out @ fst (run w self rest), snd (run w self rest))"
    by (simp add: run_append)
  from s 3 4 show ?thesis by blast
qed

theorem run_answers_each_request_line_witness:
  "\<exists>out.
     (\<exists>response. out = [Print response, Flush])
     \<and> run example_world MCPServer_init ([newline, ''{''] @ [''{}'' @ newline])
        = ([Print (JObj
              [(''jsonrpc'', JStr ''2.0''),
               (''id'', JNull),
               (''error'', JObj
                  [(''code'', JInt (- 32700)),
                   (''message'', JStr (''Parse error: ''
                      @ ''Expecting property name enclosed in double quotes: line 1 column 2 (char 1)''))])]),
            Flush] @ out, None)
     \<and> run example_world MCPServer_init ([newline, ''{''] @ (''{}'' @ newline) # [''[]'', ''{}''])
        = ([Print (JObj
              [(''jsonrpc'', JStr ''2.0''),
               (''id'', JNull),
               (''error'', JObj
                  [(''code'', JInt (- 32700)),
                   (''message'', JStr (''Parse error: ''
                      @ ''Expecting property name enclosed in double quotes: line 1 column 2 (char 1)''))])]),
            Flush] @ out @ [],
           Some (Exc AttributeError
             (quoted ''list'' @ '' object has no attribute '' @ quoted ''get'')))"
proof -
  have l: "strip (''{}'' @ newline) = [] 
     \<or> (\<exists>m. json_loads example_world (strip (''{}'' @ newline)) = Inl (Exc JSONDecodeError m))
     \<or> (\<exists>d. json_loads example_world (strip (''{}'' @ newline)) = Inr (JObj d))"
    by (simp add: strip_obj_nl example_loads_obj)
  have n: "strip (''{}'' @ newline) \<noteq> []"
    by (simp add: strip_obj_nl)
  have r: "fst (run example_world MCPServer_init [''[]'', ''{}'']) = []"
    "snd (run example_world MCPServer_init [''[]'', ''{}'']) =
       Some (Exc AttributeError
         (quoted ''list'' @ '' object has no attribute '' @ quoted ''get''))"
    by (simp_all only: run_non_object_line fst_conv snd_conv)
  from run_answers_each_request_line [OF example_before l, of "[''[]'', ''{}'']"]
  show ?thesis by (simp only: n r if_False)
qed

text \<open>
  C3, as the specification states it, fails: a line of white space is read and nothing
  is written for it.
\<close>

theorem run_blank_line_counterexample:
  "run example_world MCPServer_init [newline] = ([], None)"
  by (simp add: run_line_def strip_nl)

text \<open>
  Hence an input all of whose lines are of these three kinds is read to its end, each
  line answered in turn.
\<close>

lemma run_all_lines_answered:
  assumes "\<forall>line \<in> set lines.
     strip line = [] \<or> (\<exists>m. json_loads w (strip line) = Inl (Exc JSONDecodeError m))
     \<or> (\<exists>d. json_loads w (strip line) = Inr (JObj d))"
  shows "\<exists>outs. run w self lines = (concat outs, None)
     \<and> list_all2 (\<lambda>line out.
          if strip line = [] then out = [] else (\<exists>response. out = [Print response, Flush]))
        lines outs"
  using assms
proof (induction lines)
  case Nil
  then show ?case by simp
next
  case (Cons line lines)
  from Cons.prems run_line_answered [of line w self] obtain out
    where o: "run_line w self line = Inr out"
      "if strip line = [] then out = [] else (\<exists>response. out = [Print response, Flush])"
    by auto
  from Cons obtain outs
    where r: "run w self lines = (concat outs, None)"
      "list_all2 (\<lambda>line out.
          if strip line = [] then out = [] else (\<exists>response. out = [Print response, Flush]))
        lines outs"
    by auto
  from o r have "run w self (line # lines) = (concat (out # outs), None)" by simp
  moreover from o r have "list_all2 (\<lambda>line out.
          if strip line = [] then out = [] else (\<exists>response. out = [Print response, Flush]))
        (line # lines) (out # outs)" by simp
  ultimately show ?case by blast
qed

section \<open>The registry\<close>

lemma handle_request_tools_list:
  assumes "dict_get d ''method'' JNull = JStr ''tools/list''"
  shows "handle_request w self (JObj d) =
     (Inr (JObj
        [(''jsonrpc'', JStr ''2.0''),
         (''id'', dict_get d ''id'' JNull),
         (''result'', JObj [(''tools'', JArr (map snd (tools self)))])]), [])"
  using assms
  by (simp add: handle_request_def handle_request_try_def io_return_def)

text \<open>
  C4. The names of the registry are \<^verbatim>\<open>list_files\<close> and \<^verbatim>\<open>read_file\<close>, in this order. A
  \<^verbatim>\<open>tools/list\<close> request is answered with the descriptors of the registry in this
  order, whatever else the request holds and whatever the world is; and in a run of the
  server the answer is the same after any lines handled before it: nothing the server
  does changes the registry.
\<close>

theorem tools_list_registry:
  "map (\<lambda>t. item t ''name'') (map snd (tools MCPServer_init))
     = [Some (JStr ''list_files''), Some (JStr ''read_file'')]
   \<and> (dict_get d ''method'' JNull = JStr ''tools/list'' \<longrightarrow>
        handle_request w MCPServer_init (JObj d) =
          (Inr (JObj
             [(''jsonrpc'', JStr ''2.0''),
              (''id'', dict_get d ''id'' JNull),
              (''result'', JObj [(''tools'', JArr (map snd (tools MCPServer_init)))])]), [])
        \<and> (\<forall>before out0 line.
             run w MCPServer_init before = (out0, None) \<and> strip line \<noteq> []
             \<and> json_loads w (strip line) = Inr (JObj d) \<longrightarrow>
             run w MCPServer_init (before @ [line]) =
               (out0 @ [Print (JObj
                  [(''jsonrpc'', JStr ''2.0''),
                   (''id'', dict_get d ''id'' JNull),
                   (''result'', JObj [(''tools'', JArr (map snd (tools MCPServer_init)))])]),
                  Flush], None)))"
proof (intro conjI impI allI)
  show "map (\<lambda>t. item t ''name'') (map snd (tools MCPServer_init))
     = [Some (JStr ''list_files''), Some (JStr ''read_file'')]"
    by (simp add: MCPServer_init_def)
next
  assume m: "dict_get d ''method'' JNull = JStr ''tools/list''"
  then show "handle_request w MCPServer_init (JObj d) =
          (Inr (JObj
             [(''jsonrpc'', JStr ''2.0''),
              (''id'', dict_get d ''id'' JNull),
              (''result'', JObj [(''tools'', JArr (map snd (tools MCPServer_init)))])]), [])"
    by (rule handle_request_tools_list)
next
  fix before out0 line
  assume m: "dict_get d ''method'' JNull = JStr ''tools/list''"
    and r: "run w MCPServer_init before = (out0, None) \<and> strip line \<noteq> []
             \<and> json_loads w (strip line) = Inr (JObj d)"
  from m r have "run_line w MCPServer_init line =
      Inr [Print (JObj
                  [(''jsonrpc'', JStr ''2.0''),
                   (''id'', dict_get d ''id'' JNull),
                   (''result'', JObj [(''tools'', JArr (map snd (tools MCPServer_init)))])]),
                  Flush]"
    by (simp add: run_line_def handle_request_tools_list)
  with r show "run w MCPServer_init (before @ [line]) =
               (out0 @ [Print (JObj
                  [(''jsonrpc'', JStr ''2.0''),
                   (''id'', dict_get d ''id'' JNull),
                   (''result'', JObj [(''tools'', JArr (map snd (tools MCPServer_init)))])]),
                  Flush], None)"
    by (simp add: run_append)
qed

theorem tools_list_registry_witness:
  "map (\<lambda>t. item t ''name'') (map snd (tools MCPServer_init))
     = [Some (JStr ''list_files''), Some (JStr ''read_file'')]
   \<and> handle_request example_world MCPServer_init
        (JObj [(''jsonrpc'', JStr ''2.0''), (''id'', JInt 2), (''method'', JStr ''tools/list'')])
      = (Inr (JObj
           [(''jsonrpc'', JStr ''2.0''),
            (''id'', JInt 2),
            (''result'', JObj [(''tools'', JArr (map snd (tools MCPServer_init)))])]), [])
   \<and> run example_world MCPServer_init [newline, tools_list_line @ newline]
      = ([Print (JObj
           [(''jsonrpc'', JStr ''2.0''),
            (''id'', JInt 2),
            (''result'', JObj [(''tools'', JArr (map snd (tools MCPServer_init)))])]),
          Flush], None)"
proof -
  let ?d = "[(''jsonrpc'', JStr ''2.0''), (''id'', JInt 2), (''method'', JStr ''tools/list'')]"
  note T = tools_list_registry [of ?d example_world]
  have m: "dict_get ?d ''method'' JNull = JStr ''tools/list''"
    by (simp add: dict_get_def)
  have i: "dict_get ?d ''id'' JNull = JInt 2"
    by (simp add: dict_get_def)
  have before: "run example_world MCPServer_init [newline] = ([], None)"
    by (simp add: run_line_def strip_nl)
  have line: "strip (tools_list_line @ newline) \<noteq> []"
    by (simp add: strip_tools_list_line) (simp add: tools_list_line_def)
  have loads: "json_loads example_world (strip (tools_list_line @ newline)) = Inr (JObj ?d)"
    by (simp add: strip_tools_list_line example_loads_tools_list)
  from T have names: "map (\<lambda>t. item t ''name'') (map snd (tools MCPServer_init))
     = [Some (JStr ''list_files''), Some (JStr ''read_file'')]" by blast
  from T m have h: "handle_request example_world MCPServer_init (JObj ?d) =
          (Inr (JObj
             [(''jsonrpc'', JStr ''2.0''),
              (''id'', dict_get ?d ''id'' JNull),
              (''result'', JObj [(''tools'', JArr (map snd (tools MCPServer_init)))])]), [])"
    by blast
  from T m have "\<forall>before out0 line.
             run example_world MCPServer_init before = (out0, None) \<and> strip line \<noteq> []
             \<and> json_loads example_world (strip line) = Inr (JObj ?d) \<longrightarrow>
             run example_world MCPServer_init (before @ [line]) =
               (out0 @ [Print (JObj
                  [(''jsonrpc'', JStr ''2.0''),
                   (''id'', dict_get ?d ''id'' JNull),
                   (''result'', JObj [(''tools'', JArr (map snd (tools MCPServer_init)))])]),
                  Flush], None)"
    by blast
  with before line loads
  have r: "run example_world MCPServer_init ([newline] @ [tools_list_line @ newline]) =
               ([] @ [Print (JObj
                  [(''jsonrpc'', JStr ''2.0''),
                   (''id'', dict_get ?d ''id'' JNull),
                   (''result'', JObj [(''tools'', JArr (map snd (tools MCPServer_init)))])]),
                  Flush], None)"
    by blast
  from names h r show ?thesis by (simp only: i append.simps)
qed

section \<open>The tools\<close>

lemma list_files_total: "\<exists>text t. list_files w path = (Inr text, t)"
proof -
  have "\<exists>x t. io_catch (list_files_try w path)
       (\<lambda>e. io_return (''Error listing files: '' @ exc_str e)) = (Inr x, t) \<and> True"
    by (rule io_catch_total) (simp_all add: io_return_def)
  then show ?thesis by (simp add: list_files_def)
qed

lemma read_file_total: "\<exists>text t. read_file w path = (Inr text, t)"
proof -
  have "\<exists>x t. io_catch (read_file_try w path)
       (\<lambda>e. case e of
          Exc UnicodeDecodeError m \<Rightarrow>
            io_return (''Error: Cannot read '' @ quoted (fmt w path)
              @ '' - appears to be a binary file'')
        | _ \<Rightarrow> io_return (''Error reading file: '' @ exc_str e)) = (Inr x, t) \<and> True"
    by (rule io_catch_total)
      (simp_all add: io_return_def split: py_exception.splits exc_class.splits)
  then show ?thesis by (simp add: read_file_def)
qed

lemma call_list_files:
  assumes "dict_get d ''method'' JNull = JStr ''tools/call''"
    and "dict_get d ''params'' (JObj []) = JObj ps"
    and "dict_get ps ''name'' JNull = JStr ''list_files''"
    and "dict_get ps ''arguments'' (JObj []) = JObj args"
    and "list_files w (dict_get args ''path'' (JStr ''.'')) = (Inr text, t)"
  shows "handle_request w self (JObj d) =
     (Inr (JObj
        [(''jsonrpc'', JStr ''2.0''),
         (''id'', dict_get d ''id'' JNull),
         (''result'', JObj
            [(''content'', JArr
               [JObj [(''type'', JStr ''text''), (''text'', JStr text)]])])]), t)"
  using assms by (simp add: handle_request_def handle_request_try_def io_return_def)

lemma call_read_file:
  assumes "dict_get d ''method'' JNull = JStr ''tools/call''"
    and "dict_get d ''params'' (JObj []) = JObj ps"
    and "dict_get ps ''name'' JNull = JStr ''read_file''"
    and "dict_get ps ''arguments'' (JObj []) = JObj args"
    and "read_file w (dict_get args ''path'' JNull) = (Inr text, t)"
  shows "handle_request w self (JObj d) =
     (Inr (JObj
        [(''jsonrpc'', JStr ''2.0''),
         (''id'', dict_get d ''id'' JNull),
         (''result'', JObj
            [(''content'', JArr
               [JObj [(''type'', JStr ''text''), (''text'', JStr text)]])])]), t)"
  using assms by (simp add: handle_request_def handle_request_try_def io_return_def)

lemma list_files_missing:
  assumes "path_exists w (Path p) = Inr False"
  shows "list_files w (JStr p) =
     (Inr (''Error: Path '' @ quoted p @ '' does not exist''), [Exists (Path p)])"
  using assms by (simp add: list_files_def list_files_try_def io_return_def fs_def)

lemma does_not_exist_sublist:
  "sublist ''does not exist'' (''Error: Path '' @ quoted p @ '' does not exist'')"
proof -
  have "''Error: Path '' @ quoted p @ '' does not exist''
      = (''Error: Path '' @ quoted p @ '' '') @ ''does not exist'' @ []" by simp
  then show ?thesis by (simp only: sublist_appendI)
qed

lemma read_file_too_large:
  assumes "path_exists w (Path p) = Inr True" and "path_is_file w (Path p) = Inr True"
    and "st_size w (Path p) = Inr sz" and "1048576 < sz"
  shows "read_file w (JStr p) =
     (Inr (''Error: File '' @ quoted p @ '' is too large (max 1MB)''),
      [Exists (Path p), IsFile (Path p), Stat (Path p)])"
  using assms by (simp add: read_file_def read_file_try_def io_return_def fs_def)

lemma read_file_contents:
  assumes "path_exists w (Path p) = Inr True" and "path_is_file w (Path p) = Inr True"
    and "st_size w (Path p) = Inr sz" and "sz \<le> 1048576"
    and "open_utf8 w (Path p) = None" and "read_text w (Path p) = Inr content"
  shows "read_file w (JStr p) =
     (Inr (''Contents of '' @ quoted p @ '':'' @ newline @ newline @ content),
      [Exists (Path p), IsFile (Path p), Stat (Path p), Open (Path p), Read (Path p)])"
  using assms by (simp add: read_file_def read_file_try_def io_return_def fs_def)

lemma read_file_binary:
  assumes "path_exists w (Path p) = Inr True" and "path_is_file w (Path p) = Inr True"
    and "st_size w (Path p) = Inr sz" and "sz \<le> 1048576"
    and "open_utf8 w (Path p) = None"
    and "read_text w (Path p) = Inl (Exc UnicodeDecodeError m)"
  shows "read_file w (JStr p) =
     (Inr (''Error: Cannot read '' @ quoted p @ '' - appears to be a binary file''),
      [Exists (Path p), IsFile (Path p), Stat (Path p), Open (Path p), Read (Path p)])"
  using assms by (simp add: read_file_def read_file_try_def io_return_def fs_def)

lemma read_file_opens:
  assumes "path_exists w (Path p) = Inr True" and "path_is_file w (Path p) = Inr True"
    and "st_size w (Path p) = Inr sz" and "sz \<le> 1048576"
  shows "Open (Path p) \<in> set (snd (read_file w (JStr p)))"
proof (cases "open_utf8 w (Path p)")
  case None
  with assms show ?thesis
    by (cases "read_text w (Path p)")
      (simp_all add: read_file_def read_file_try_def io_return_def fs_def
        split: py_exception.splits exc_class.splits)
next
  case (Some e)
  with assms show ?thesis
    by (simp add: read_file_def read_file_try_def io_return_def fs_def
        split: py_exception.splits exc_class.splits)
qed

lemma read_file_no_path:
  "read_file w JNull = (Inr (''Error reading file: '' @ path_type_error w JNull), [])"
  by (simp add: read_file_def read_file_try_def io_return_def io_raise_def)

text \<open>The example's file system at the paths the examples use.\<close>

lemma example_missing: "path_exists example_world (Path ''missing'') = Inr False"
  by (simp add: example_world_def example_fs_def)

lemma example_big:
  "path_exists example_world (Path ''big.txt'') = Inr True"
  "path_is_file example_world (Path ''big.txt'') = Inr True"
  "st_size example_world (Path ''big.txt'') = Inr 1048577"
  by (simp_all add: example_world_def example_fs_def)

lemma example_exact:
  "path_exists example_world (Path ''exact.txt'') = Inr True"
  "path_is_file example_world (Path ''exact.txt'') = Inr True"
  "st_size example_world (Path ''exact.txt'') = Inr 1048576"
  "open_utf8 example_world (Path ''exact.txt'') = None"
  "read_text example_world (Path ''exact.txt'') = Inr mebibyte_text"
  by (simp_all add: example_world_def example_fs_def)

lemma example_photo:
  "path_exists example_world (Path ''photo.bin'') = Inr True"
  "path_is_file example_world (Path ''photo.bin'') = Inr True"
  "st_size example_world (Path ''photo.bin'') = Inr 4"
  "open_utf8 example_world (Path ''photo.bin'') = None"
  "read_text example_world (Path ''photo.bin'') = Inl (Exc UnicodeDecodeError invalid_start_byte)"
  by (simp_all add: example_world_def example_fs_def)

text \<open>
  The listing of the example's directory \<^verbatim>\<open>.\<close>: the file with its size, the directory
  with a trailing slash, the lines sorted as whole lines, so the directory comes first.
\<close>

lemma show_nat_10: "show_nat 10 = ''10''"
  by code_simp

lemma sort_example:
  "sort [dir_line ''sub'', file_line ''a.txt'' 10] = [dir_line ''sub'', file_line ''a.txt'' 10]"
  by code_simp

lemma list_files_example:
  "list_files example_world (JStr ''.'') =
     (Inr (''Contents of '' @ quoted ''.'' @ '':'' @ newline
        @ dir_line ''sub'' @ newline @ file_line ''a.txt'' 10),
      [Exists (Path ''.''), IsDir (Path ''.''), Iterdir (Path ''.''),
       IsFile (Child (Path ''.'') ''sub''), IsDir (Child (Path ''.'') ''sub''),
       IsFile (Child (Path ''.'') ''a.txt''), Stat (Child (Path ''.'') ''a.txt'')])"
proof -
  have "list_files_try example_world (JStr ''.'') =
     (Inr (''Contents of '' @ quoted ''.'' @ '':'' @ newline
        @ join newline (sort [dir_line ''sub'', file_line ''a.txt'' 10])),
      [Exists (Path ''.''), IsDir (Path ''.''), Iterdir (Path ''.''),
       IsFile (Child (Path ''.'') ''sub''), IsDir (Child (Path ''.'') ''sub''),
       IsFile (Child (Path ''.'') ''a.txt''), Stat (Child (Path ''.'') ''a.txt'')])"
    by (simp add: list_files_try_def io_return_def fs_def example_world_def example_fs_def
        dir_line_def file_line_def)
  then show ?thesis
    by (simp only: list_files_def sort_example io_catch_Inr_pair join.simps append_assoc)
qed

text \<open>
  C5. \<^verbatim>\<open>_list_files\<close> returns a string for every argument, whatever the file system
  answers or raises. A \<^verbatim>\<open>tools/call\<close> for \<^verbatim>\<open>list_files\<close> with a dict of arguments is
  answered by a result that carries that string; and when the path does not exist the
  answer is a result whose text contains \<^verbatim>\<open>does not exist\<close>.
\<close>

theorem list_files_never_raises:
  "(\<exists>text t. list_files w path = (Inr text, t))
   \<and> (dict_get d ''method'' JNull = JStr ''tools/call''
      \<and> dict_get d ''params'' (JObj []) = JObj ps
      \<and> dict_get ps ''name'' JNull = JStr ''list_files''
      \<and> dict_get ps ''arguments'' (JObj []) = JObj args \<longrightarrow>
      (\<exists>text t. list_files w (dict_get args ''path'' (JStr ''.'')) = (Inr text, t)
         \<and> handle_request w self (JObj d) =
           (Inr (JObj
              [(''jsonrpc'', JStr ''2.0''),
               (''id'', dict_get d ''id'' JNull),
               (''result'', JObj
                  [(''content'', JArr
                     [JObj [(''type'', JStr ''text''), (''text'', JStr text)]])])]), t))
      \<and> (dict_get args ''path'' (JStr ''.'') = JStr p \<and> path_exists w (Path p) = Inr False \<longrightarrow>
           handle_request w self (JObj d) =
             (Inr (JObj
                [(''jsonrpc'', JStr ''2.0''),
                 (''id'', dict_get d ''id'' JNull),
                 (''result'', JObj
                    [(''content'', JArr
                       [JObj [(''type'', JStr ''text''),
                              (''text'', JStr (''Error: Path '' @ quoted p
                                 @ '' does not exist''))]])])]),
              [Exists (Path p)])
           \<and> sublist ''does not exist'' (''Error: Path '' @ quoted p @ '' does not exist'')))"
proof (intro conjI impI)
  show "\<exists>text t. list_files w path = (Inr text, t)" by (rule list_files_total)
next
  assume a: "dict_get d ''method'' JNull = JStr ''tools/call''
      \<and> dict_get d ''params'' (JObj []) = JObj ps
      \<and> dict_get ps ''name'' JNull = JStr ''list_files''
      \<and> dict_get ps ''arguments'' (JObj []) = JObj args"
  from list_files_total [of w "dict_get args ''path'' (JStr ''.'')"] obtain msg t
    where l: "list_files w (dict_get args ''path'' (JStr ''.'')) = (Inr msg, t)" by blast
  with a call_list_files [of d ps args w msg t self]
  show "\<exists>text t. list_files w (dict_get args ''path'' (JStr ''.'')) = (Inr text, t)
         \<and> handle_request w self (JObj d) =
           (Inr (JObj
              [(''jsonrpc'', JStr ''2.0''),
               (''id'', dict_get d ''id'' JNull),
               (''result'', JObj
                  [(''content'', JArr
                     [JObj [(''type'', JStr ''text''), (''text'', JStr text)]])])]), t)"
    by blast
next
  assume a: "dict_get d ''method'' JNull = JStr ''tools/call''
      \<and> dict_get d ''params'' (JObj []) = JObj ps
      \<and> dict_get ps ''name'' JNull = JStr ''list_files''
      \<and> dict_get ps ''arguments'' (JObj []) = JObj args"
    and b: "dict_get args ''path'' (JStr ''.'') = JStr p \<and> path_exists w (Path p) = Inr False"
  from b have "list_files w (dict_get args ''path'' (JStr ''.'')) =
     (Inr (''Error: Path '' @ quoted p @ '' does not exist''), [Exists (Path p)])"
    by (simp add: list_files_missing)
  with a show "handle_request w self (JObj d) =
             (Inr (JObj
                [(''jsonrpc'', JStr ''2.0''),
                 (''id'', dict_get d ''id'' JNull),
                 (''result'', JObj
                    [(''content'', JArr
                       [JObj [(''type'', JStr ''text''),
                              (''text'', JStr (''Error: Path '' @ quoted p
                                 @ '' does not exist''))]])])]),
              [Exists (Path p)])"
    by (simp add: call_list_files)
next
  show "sublist ''does not exist'' (''Error: Path '' @ quoted p @ '' does not exist'')"
    by (rule does_not_exist_sublist)
qed

theorem list_files_never_raises_witness:
  "(\<exists>msg t. list_files example_world (JStr ''missing'') = (Inr msg, t))
   \<and> handle_request example_world MCPServer_init
        (JObj [(''jsonrpc'', JStr ''2.0''), (''id'', JInt 3), (''method'', JStr ''tools/call''),
               (''params'', JObj [(''name'', JStr ''list_files''),
                                  (''arguments'', JObj [(''path'', JStr ''missing'')])])])
      = (Inr (JObj
           [(''jsonrpc'', JStr ''2.0''),
            (''id'', JInt 3),
            (''result'', JObj
               [(''content'', JArr
                  [JObj [(''type'', JStr ''text''),
                         (''text'', JStr (''Error: Path '' @ quoted ''missing''
                            @ '' does not exist''))]])])]),
         [Exists (Path ''missing'')])
   \<and> sublist ''does not exist'' (''Error: Path '' @ quoted ''missing'' @ '' does not exist'')"
proof -
  let ?args = "[(''path'', JStr ''missing'')]"
  let ?ps = "[(''name'', JStr ''list_files''), (''arguments'', JObj ?args)]"
  let ?d = "[(''jsonrpc'', JStr ''2.0''), (''id'', JInt 3), (''method'', JStr ''tools/call''),
             (''params'', JObj ?ps)]"
  have h: "dict_get ?d ''method'' JNull = JStr ''tools/call''
      \<and> dict_get ?d ''params'' (JObj []) = JObj ?ps
      \<and> dict_get ?ps ''name'' JNull = JStr ''list_files''
      \<and> dict_get ?ps ''arguments'' (JObj []) = JObj ?args"
    by (simp add: dict_get_def)
  have e: "dict_get ?args ''path'' (JStr ''.'') = JStr ''missing''
      \<and> path_exists example_world (Path ''missing'') = Inr False"
    by (simp add: dict_get_def example_missing)
  have i: "dict_get ?d ''id'' JNull = JInt 3"
    by (simp add: dict_get_def)
  from h e list_files_never_raises
    [where w = example_world and path = "JStr ''missing''" and d = ?d and ps = ?ps
      and args = ?args and self = MCPServer_init and p = "''missing''"]
  show ?thesis by (simp only: i)
qed

text \<open>
  C6. For a regular file whose size from \<^verbatim>\<open>stat\<close> exceeds 1,048,576 bytes, \<^verbatim>\<open>_read_file\<close>
  returns the too-large message after \<^verbatim>\<open>exists\<close>, \<^verbatim>\<open>is_file\<close> and \<^verbatim>\<open>stat\<close> only: the
  file is not opened. At exactly 1,048,576 bytes the file is opened, and when it opens
  and decodes its content is returned under the header.
\<close>

theorem read_file_size_limit:
  "path_exists w (Path p) = Inr True \<and> path_is_file w (Path p) = Inr True
     \<and> st_size w (Path p) = Inr sz \<longrightarrow>
   (1048576 < sz \<longrightarrow>
      read_file w (JStr p) =
        (Inr (''Error: File '' @ quoted p @ '' is too large (max 1MB)''),
         [Exists (Path p), IsFile (Path p), Stat (Path p)])
      \<and> Open (Path p) \<notin> set (snd (read_file w (JStr p))))
   \<and> (sz = 1048576 \<longrightarrow>
      Open (Path p) \<in> set (snd (read_file w (JStr p)))
      \<and> (open_utf8 w (Path p) = None \<and> read_text w (Path p) = Inr content \<longrightarrow>
           read_file w (JStr p) =
             (Inr (''Contents of '' @ quoted p @ '':'' @ newline @ newline @ content),
              [Exists (Path p), IsFile (Path p), Stat (Path p), Open (Path p),
               Read (Path p)])))"
proof (intro impI conjI)
  assume a: "path_exists w (Path p) = Inr True \<and> path_is_file w (Path p) = Inr True
     \<and> st_size w (Path p) = Inr sz" and b: "1048576 < sz"
  from a b show l: "read_file w (JStr p) =
        (Inr (''Error: File '' @ quoted p @ '' is too large (max 1MB)''),
         [Exists (Path p), IsFile (Path p), Stat (Path p)])"
    by (simp add: read_file_too_large)
  show "Open (Path p) \<notin> set (snd (read_file w (JStr p)))"
    by (simp add: l)
next
  assume a: "path_exists w (Path p) = Inr True \<and> path_is_file w (Path p) = Inr True
     \<and> st_size w (Path p) = Inr sz" and b: "sz = 1048576"
  from a b show "Open (Path p) \<in> set (snd (read_file w (JStr p)))"
    by (intro read_file_opens [where sz = sz]) simp_all
next
  assume a: "path_exists w (Path p) = Inr True \<and> path_is_file w (Path p) = Inr True
     \<and> st_size w (Path p) = Inr sz" and b: "sz = 1048576"
    and c: "open_utf8 w (Path p) = None \<and> read_text w (Path p) = Inr content"
  from a b c show "read_file w (JStr p) =
             (Inr (''Contents of '' @ quoted p @ '':'' @ newline @ newline @ content),
              [Exists (Path p), IsFile (Path p), Stat (Path p), Open (Path p),
               Read (Path p)])"
    by (intro read_file_contents [where sz = sz]) simp_all
qed

theorem read_file_size_limit_witness:
  "read_file example_world (JStr ''big.txt'') =
     (Inr (''Error: File '' @ quoted ''big.txt'' @ '' is too large (max 1MB)''),
      [Exists (Path ''big.txt''), IsFile (Path ''big.txt''), Stat (Path ''big.txt'')])
   \<and> Open (Path ''big.txt'') \<notin> set (snd (read_file example_world (JStr ''big.txt'')))
   \<and> Open (Path ''exact.txt'') \<in> set (snd (read_file example_world (JStr ''exact.txt'')))
   \<and> read_file example_world (JStr ''exact.txt'') =
       (Inr (''Contents of '' @ quoted ''exact.txt'' @ '':'' @ newline @ newline
          @ mebibyte_text),
        [Exists (Path ''exact.txt''), IsFile (Path ''exact.txt''), Stat (Path ''exact.txt''),
         Open (Path ''exact.txt''), Read (Path ''exact.txt'')])"
proof -
  have big: "(1048576::nat) < 1048577" by simp
  from example_big big
    read_file_size_limit [where w = example_world and p = "''big.txt''" and sz = 1048577]
  have 1: "read_file example_world (JStr ''big.txt'') =
     (Inr (''Error: File '' @ quoted ''big.txt'' @ '' is too large (max 1MB)''),
      [Exists (Path ''big.txt''), IsFile (Path ''big.txt''), Stat (Path ''big.txt'')])
   \<and> Open (Path ''big.txt'') \<notin> set (snd (read_file example_world (JStr ''big.txt'')))"
    by blast
  from example_exact
    read_file_size_limit [where w = example_world and p = "''exact.txt''" and sz = 1048576
      and content = mebibyte_text]
  have 2: "Open (Path ''exact.txt'') \<in> set (snd (read_file example_world (JStr ''exact.txt'')))
   \<and> read_file example_world (JStr ''exact.txt'') =
       (Inr (''Contents of '' @ quoted ''exact.txt'' @ '':'' @ newline @ newline
          @ mebibyte_text),
        [Exists (Path ''exact.txt''), IsFile (Path ''exact.txt''), Stat (Path ''exact.txt''),
         Open (Path ''exact.txt''), Read (Path ''exact.txt'')])"
    by blast
  from 1 2 show ?thesis by blast
qed

text \<open>
  C7. For a regular file within the size limit that opens but whose content does not
  decode as UTF-8, \<^verbatim>\<open>_read_file\<close> returns the binary-file message, and a \<^verbatim>\<open>tools/call\<close>
  for \<^verbatim>\<open>read_file\<close> on its path is answered by a result that carries the message: no
  exception leaves the tool and the response has no \<^verbatim>\<open>error\<close>.
\<close>

theorem read_file_binary_message:
  "path_exists w (Path p) = Inr True \<and> path_is_file w (Path p) = Inr True
     \<and> st_size w (Path p) = Inr sz \<and> sz \<le> 1048576 \<and> open_utf8 w (Path p) = None
     \<and> read_text w (Path p) = Inl (Exc UnicodeDecodeError m) \<longrightarrow>
   read_file w (JStr p) =
     (Inr (''Error: Cannot read '' @ quoted p @ '' - appears to be a binary file''),
      [Exists (Path p), IsFile (Path p), Stat (Path p), Open (Path p), Read (Path p)])
   \<and> sublist ''binary file''
        (''Error: Cannot read '' @ quoted p @ '' - appears to be a binary file'')
   \<and> (dict_get d ''method'' JNull = JStr ''tools/call''
        \<and> dict_get d ''params'' (JObj []) = JObj ps
        \<and> dict_get ps ''name'' JNull = JStr ''read_file''
        \<and> dict_get ps ''arguments'' (JObj []) = JObj args
        \<and> dict_get args ''path'' JNull = JStr p \<longrightarrow>
        handle_request w self (JObj d) =
          (Inr (JObj
             [(''jsonrpc'', JStr ''2.0''),
              (''id'', dict_get d ''id'' JNull),
              (''result'', JObj
                 [(''content'', JArr
                    [JObj [(''type'', JStr ''text''),
                           (''text'', JStr (''Error: Cannot read '' @ quoted p
                              @ '' - appears to be a binary file''))]])])]),
           [Exists (Path p), IsFile (Path p), Stat (Path p), Open (Path p), Read (Path p)]))"
proof (intro impI conjI)
  assume a: "path_exists w (Path p) = Inr True \<and> path_is_file w (Path p) = Inr True
     \<and> st_size w (Path p) = Inr sz \<and> sz \<le> 1048576 \<and> open_utf8 w (Path p) = None
     \<and> read_text w (Path p) = Inl (Exc UnicodeDecodeError m)"
  then show r: "read_file w (JStr p) =
     (Inr (''Error: Cannot read '' @ quoted p @ '' - appears to be a binary file''),
      [Exists (Path p), IsFile (Path p), Stat (Path p), Open (Path p), Read (Path p)])"
    by (intro read_file_binary [where sz = sz and m = m]) simp_all
  have "''Error: Cannot read '' @ quoted p @ '' - appears to be a binary file''
      = (''Error: Cannot read '' @ quoted p @ '' - appears to be a '') @ ''binary file'' @ []"
    by simp
  then show "sublist ''binary file''
        (''Error: Cannot read '' @ quoted p @ '' - appears to be a binary file'')"
    by (simp only: sublist_appendI)
  assume b: "dict_get d ''method'' JNull = JStr ''tools/call''
        \<and> dict_get d ''params'' (JObj []) = JObj ps
        \<and> dict_get ps ''name'' JNull = JStr ''read_file''
        \<and> dict_get ps ''arguments'' (JObj []) = JObj args
        \<and> dict_get args ''path'' JNull = JStr p"
  with r show "handle_request w self (JObj d) =
          (Inr (JObj
             [(''jsonrpc'', JStr ''2.0''),
              (''id'', dict_get d ''id'' JNull),
              (''result'', JObj
                 [(''content'', JArr
                    [JObj [(''type'', JStr ''text''),
                           (''text'', JStr (''Error: Cannot read '' @ quoted p
                              @ '' - appears to be a binary file''))]])])]),
           [Exists (Path p), IsFile (Path p), Stat (Path p), Open (Path p), Read (Path p)])"
    by (intro call_read_file [where ps = ps and args = args]) simp_all
qed

theorem read_file_binary_message_witness:
  "handle_request example_world MCPServer_init
     (JObj [(''jsonrpc'', JStr ''2.0''), (''id'', JInt 4), (''method'', JStr ''tools/call''),
            (''params'', JObj [(''name'', JStr ''read_file''),
                               (''arguments'', JObj [(''path'', JStr ''photo.bin'')])])])
   = (Inr (JObj
        [(''jsonrpc'', JStr ''2.0''),
         (''id'', JInt 4),
         (''result'', JObj
            [(''content'', JArr
               [JObj [(''type'', JStr ''text''),
                      (''text'', JStr (''Error: Cannot read '' @ quoted ''photo.bin''
                         @ '' - appears to be a binary file''))]])])]),
      [Exists (Path ''photo.bin''), IsFile (Path ''photo.bin''), Stat (Path ''photo.bin''),
       Open (Path ''photo.bin''), Read (Path ''photo.bin'')])"
proof -
  let ?args = "[(''path'', JStr ''photo.bin'')]"
  let ?ps = "[(''name'', JStr ''read_file''), (''arguments'', JObj ?args)]"
  let ?d = "[(''jsonrpc'', JStr ''2.0''), (''id'', JInt 4), (''method'', JStr ''tools/call''),
             (''params'', JObj ?ps)]"
  have h: "dict_get ?d ''method'' JNull = JStr ''tools/call''
        \<and> dict_get ?d ''params'' (JObj []) = JObj ?ps
        \<and> dict_get ?ps ''name'' JNull = JStr ''read_file''
        \<and> dict_get ?ps ''arguments'' (JObj []) = JObj ?args
        \<and> dict_get ?args ''path'' JNull = JStr ''photo.bin''"
    by (simp add: dict_get_def)
  have f: "path_exists example_world (Path ''photo.bin'') = Inr True
     \<and> path_is_file example_world (Path ''photo.bin'') = Inr True
     \<and> st_size example_world (Path ''photo.bin'') = Inr 4 \<and> (4::nat) \<le> 1048576
     \<and> open_utf8 example_world (Path ''photo.bin'') = None
     \<and> read_text example_world (Path ''photo.bin'')
        = Inl (Exc UnicodeDecodeError invalid_start_byte)"
    by (simp add: example_photo)
  have i: "dict_get ?d ''id'' JNull = JInt 4"
    by (simp add: dict_get_def)
  from h f read_file_binary_message
    [where w = example_world and p = "''photo.bin''" and sz = 4 and m = invalid_start_byte
      and d = ?d and ps = ?ps and args = ?args and self = MCPServer_init]
  show ?thesis by (simp only: i)
qed

section \<open>Unknown methods and unknown tools\<close>

lemma handle_request_unknown_method:
  assumes "dict_get d ''method'' JNull
     \<notin> {JStr ''initialize'', JStr ''tools/list'', JStr ''tools/call''}"
  shows "handle_request w self (JObj d) =
     (Inr (JObj
        [(''jsonrpc'', JStr ''2.0''),
         (''id'', dict_get d ''id'' JNull),
         (''error'', JObj
            [(''code'', JInt (- 32601)),
             (''message'',
              JStr (''Method not found: '' @ fmt w (dict_get d ''method'' JNull)))])]), [])"
  using assms by (simp add: handle_request_def handle_request_try_def io_return_def)

lemma handle_request_unknown_tool:
  assumes "dict_get d ''method'' JNull = JStr ''tools/call''"
    and "dict_get d ''params'' (JObj []) = JObj ps"
    and "dict_get ps ''name'' JNull \<notin> {JStr ''list_files'', JStr ''read_file''}"
  shows "handle_request w self (JObj d) =
     (Inr (JObj
        [(''jsonrpc'', JStr ''2.0''),
         (''id'', dict_get d ''id'' JNull),
         (''error'', JObj
            [(''code'', JInt (- 32603)),
             (''message'',
              JStr (''Internal error: Unknown tool: ''
                @ fmt w (dict_get ps ''name'' JNull)))])]), [])"
proof (cases "dict_get ps ''arguments'' (JObj [])")
  case (JObj args)
  with assms show ?thesis
    by (simp add: handle_request_def handle_request_try_def io_return_def io_raise_def)
qed (use assms in \<open>simp_all add: handle_request_def handle_request_try_def io_return_def
    io_raise_def\<close>)

text \<open>
  C8. A request whose method is none of \<^verbatim>\<open>initialize\<close>, \<^verbatim>\<open>tools/list\<close> and
  \<^verbatim>\<open>tools/call\<close> is answered with error code -32601. A \<^verbatim>\<open>tools/call\<close> whose tool
  name is neither \<^verbatim>\<open>list_files\<close> nor \<^verbatim>\<open>read_file\<close> is answered with error code -32603,
  the \<^verbatim>\<open>ValueError\<close> having passed through the general handler.
\<close>

theorem unknown_method_and_unknown_tool:
  "(dict_get d ''method'' JNull
      \<notin> {JStr ''initialize'', JStr ''tools/list'', JStr ''tools/call''} \<longrightarrow>
      handle_request w self (JObj d) =
        (Inr (JObj
           [(''jsonrpc'', JStr ''2.0''),
            (''id'', dict_get d ''id'' JNull),
            (''error'', JObj
               [(''code'', JInt (- 32601)),
                (''message'',
                 JStr (''Method not found: '' @ fmt w (dict_get d ''method'' JNull)))])]), []))
   \<and> (dict_get c ''method'' JNull = JStr ''tools/call''
      \<and> dict_get c ''params'' (JObj []) = JObj ps
      \<and> dict_get ps ''name'' JNull \<notin> {JStr ''list_files'', JStr ''read_file''} \<longrightarrow>
      handle_request w self (JObj c) =
        (Inr (JObj
           [(''jsonrpc'', JStr ''2.0''),
            (''id'', dict_get c ''id'' JNull),
            (''error'', JObj
               [(''code'', JInt (- 32603)),
                (''message'',
                 JStr (''Internal error: Unknown tool: ''
                   @ fmt w (dict_get ps ''name'' JNull)))])]), []))"
  using handle_request_unknown_method [of d w self]
    handle_request_unknown_tool [of c ps w self]
  by blast

theorem unknown_method_and_unknown_tool_witness:
  "handle_request example_world MCPServer_init
     (JObj [(''jsonrpc'', JStr ''2.0''), (''id'', JInt 5), (''method'', JStr ''ping'')])
   = (Inr (JObj
        [(''jsonrpc'', JStr ''2.0''),
         (''id'', JInt 5),
         (''error'', JObj
            [(''code'', JInt (- 32601)),
             (''message'', JStr ''Method not found: ping'')])]), [])
   \<and> handle_request example_world MCPServer_init
     (JObj [(''jsonrpc'', JStr ''2.0''), (''id'', JInt 6), (''method'', JStr ''tools/call''),
            (''params'', JObj [(''name'', JStr ''delete_file''),
                               (''arguments'', JObj [(''path'', JStr ''a.txt'')])])])
   = (Inr (JObj
        [(''jsonrpc'', JStr ''2.0''),
         (''id'', JInt 6),
         (''error'', JObj
            [(''code'', JInt (- 32603)),
             (''message'', JStr ''Internal error: Unknown tool: delete_file'')])]), [])"
proof -
  let ?d = "[(''jsonrpc'', JStr ''2.0''), (''id'', JInt 5), (''method'', JStr ''ping'')]"
  let ?ps = "[(''name'', JStr ''delete_file''), (''arguments'', JObj [(''path'', JStr ''a.txt'')])]"
  let ?c = "[(''jsonrpc'', JStr ''2.0''), (''id'', JInt 6), (''method'', JStr ''tools/call''),
             (''params'', JObj ?ps)]"
  have m: "dict_get ?d ''method'' JNull = JStr ''ping''" "dict_get ?d ''id'' JNull = JInt 5"
    "dict_get ?c ''id'' JNull = JInt 6" "dict_get ?ps ''name'' JNull = JStr ''delete_file''"
    by (simp_all add: dict_get_def)
  have h1: "dict_get ?d ''method'' JNull
      \<notin> {JStr ''initialize'', JStr ''tools/list'', JStr ''tools/call''}"
    by (simp add: dict_get_def)
  have h2: "dict_get ?c ''method'' JNull = JStr ''tools/call''
      \<and> dict_get ?c ''params'' (JObj []) = JObj ?ps
      \<and> dict_get ?ps ''name'' JNull \<notin> {JStr ''list_files'', JStr ''read_file''}"
    by (simp add: dict_get_def)
  from h1 h2 unknown_method_and_unknown_tool
    [where d = ?d and c = ?c and ps = ?ps and w = example_world and self = MCPServer_init]
  have "handle_request example_world MCPServer_init (JObj ?d) =
        (Inr (JObj
           [(''jsonrpc'', JStr ''2.0''),
            (''id'', dict_get ?d ''id'' JNull),
            (''error'', JObj
               [(''code'', JInt (- 32601)),
                (''message'',
                 JStr (''Method not found: ''
                   @ fmt example_world (dict_get ?d ''method'' JNull)))])]), [])
    \<and> handle_request example_world MCPServer_init (JObj ?c) =
        (Inr (JObj
           [(''jsonrpc'', JStr ''2.0''),
            (''id'', dict_get ?c ''id'' JNull),
            (''error'', JObj
               [(''code'', JInt (- 32603)),
                (''message'',
                 JStr (''Internal error: Unknown tool: ''
                   @ fmt example_world (dict_get ?ps ''name'' JNull)))])]), [])"
    by blast
  then show ?thesis by (simp add: m)
qed

section \<open>A call without a path\<close>

text \<open>
  C10. A \<^verbatim>\<open>tools/call\<close> whose arguments have no \<^verbatim>\<open>path\<close>: for \<^verbatim>\<open>read_file\<close> the tool is
  given \<^verbatim>\<open>None\<close>, \<^verbatim>\<open>Path(None)\<close> raises inside the tool, the general handler of the tool
  turns it into an \<^verbatim>\<open>Error reading file\<close> text, and the response is a result; for
  \<^verbatim>\<open>list_files\<close> the tool is given \<^verbatim>\<open>"."\<close> and the response is the result of listing it.
\<close>

theorem read_file_without_path:
  "dict_get d ''method'' JNull = JStr ''tools/call''
     \<and> dict_get d ''params'' (JObj []) = JObj ps
     \<and> dict_get ps ''arguments'' (JObj []) = JObj args
     \<and> map_of args ''path'' = None \<longrightarrow>
   (dict_get ps ''name'' JNull = JStr ''read_file'' \<longrightarrow>
      handle_request w self (JObj d) =
        (Inr (JObj
           [(''jsonrpc'', JStr ''2.0''),
            (''id'', dict_get d ''id'' JNull),
            (''result'', JObj
               [(''content'', JArr
                  [JObj [(''type'', JStr ''text''),
                         (''text'', JStr (''Error reading file: ''
                            @ path_type_error w JNull))]])])]), []))
   \<and> (dict_get ps ''name'' JNull = JStr ''list_files'' \<longrightarrow>
      (\<exists>msg t. list_files w (JStr ''.'') = (Inr msg, t)
         \<and> handle_request w self (JObj d) =
           (Inr (JObj
              [(''jsonrpc'', JStr ''2.0''),
               (''id'', dict_get d ''id'' JNull),
               (''result'', JObj
                  [(''content'', JArr
                     [JObj [(''type'', JStr ''text''), (''text'', JStr msg)]])])]), t)))"
proof (intro impI conjI)
  assume a: "dict_get d ''method'' JNull = JStr ''tools/call''
     \<and> dict_get d ''params'' (JObj []) = JObj ps
     \<and> dict_get ps ''arguments'' (JObj []) = JObj args
     \<and> map_of args ''path'' = None"
    and n: "dict_get ps ''name'' JNull = JStr ''read_file''"
  from a have "read_file w (dict_get args ''path'' JNull)
      = (Inr (''Error reading file: '' @ path_type_error w JNull), [])"
    by (simp add: dict_get_def read_file_no_path)
  with a n show "handle_request w self (JObj d) =
        (Inr (JObj
           [(''jsonrpc'', JStr ''2.0''),
            (''id'', dict_get d ''id'' JNull),
            (''result'', JObj
               [(''content'', JArr
                  [JObj [(''type'', JStr ''text''),
                         (''text'', JStr (''Error reading file: ''
                            @ path_type_error w JNull))]])])]), [])"
    by (intro call_read_file [where ps = ps and args = args]) simp_all
next
  assume a: "dict_get d ''method'' JNull = JStr ''tools/call''
     \<and> dict_get d ''params'' (JObj []) = JObj ps
     \<and> dict_get ps ''arguments'' (JObj []) = JObj args
     \<and> map_of args ''path'' = None"
    and n: "dict_get ps ''name'' JNull = JStr ''list_files''"
  from list_files_total [of w "JStr ''.''"] obtain msg t
    where l: "list_files w (JStr ''.'') = (Inr msg, t)" by blast
  from a have p: "dict_get args ''path'' (JStr ''.'') = JStr ''.''"
    by (simp add: dict_get_def)
  from a n l p have "handle_request w self (JObj d) =
           (Inr (JObj
              [(''jsonrpc'', JStr ''2.0''),
               (''id'', dict_get d ''id'' JNull),
               (''result'', JObj
                  [(''content'', JArr
                     [JObj [(''type'', JStr ''text''), (''text'', JStr msg)]])])]), t)"
    by (intro call_list_files [where ps = ps and args = args]) simp_all
  with l show "\<exists>msg t. list_files w (JStr ''.'') = (Inr msg, t)
         \<and> handle_request w self (JObj d) =
           (Inr (JObj
              [(''jsonrpc'', JStr ''2.0''),
               (''id'', dict_get d ''id'' JNull),
               (''result'', JObj
                  [(''content'', JArr
                     [JObj [(''type'', JStr ''text''), (''text'', JStr msg)]])])]), t)"
    by blast
qed

theorem read_file_without_path_witness:
  "handle_request example_world MCPServer_init
     (JObj [(''jsonrpc'', JStr ''2.0''), (''id'', JInt 8), (''method'', JStr ''tools/call''),
            (''params'', JObj [(''name'', JStr ''read_file''), (''arguments'', JObj [])])])
   = (Inr (JObj
        [(''jsonrpc'', JStr ''2.0''),
         (''id'', JInt 8),
         (''result'', JObj
            [(''content'', JArr
               [JObj [(''type'', JStr ''text''),
                      (''text'', JStr (''Error reading file: ''
                         @ path_type_error example_world JNull))]])])]), [])"
proof -
  let ?ps = "[(''name'', JStr ''read_file''), (''arguments'', JObj [])]"
  let ?d = "[(''jsonrpc'', JStr ''2.0''), (''id'', JInt 8), (''method'', JStr ''tools/call''),
             (''params'', JObj ?ps)]"
  have h: "dict_get ?d ''method'' JNull = JStr ''tools/call''
     \<and> dict_get ?d ''params'' (JObj []) = JObj ?ps
     \<and> dict_get ?ps ''arguments'' (JObj []) = JObj []
     \<and> map_of ([] :: (string \<times> json) list) ''path'' = None"
    by (simp add: dict_get_def)
  have n: "dict_get ?ps ''name'' JNull = JStr ''read_file''"
    by (simp add: dict_get_def)
  have i: "dict_get ?d ''id'' JNull = JInt 8"
    by (simp add: dict_get_def)
  from h n read_file_without_path
    [where d = ?d and ps = ?ps and args = "[]" and w = example_world and self = MCPServer_init]
  show ?thesis by (simp only: i)
qed

section \<open>The ids of a session\<close>

lemma send_request_not_started:
  assumes "process self = None"
  shows "send_request pr self method params =
     (Inl (Exc RuntimeError ''Server not started''), self, [])"
  using assms by (simp add: send_request_def)

lemma send_request_started:
  assumes "process self = Some p"
  shows "\<exists>r self1 request. send_request pr self method params = (r, self1, [request])
     \<and> item request ''id'' = Some (JInt (request_id self))
     \<and> item request ''method'' = Some (JStr method)
     \<and> request_id self1 = request_id self + 1
     \<and> process self1 \<noteq> None"
  using assms
  by (auto simp: send_request_def Let_def split: option.splits prod.splits sum.splits)

lemma send_requests_ids:
  assumes "process self \<noteq> None"
  shows "map (\<lambda>request. item request ''id'') (fst (send_requests pr self calls))
     = map (\<lambda>k. Some (JInt (request_id self + int k))) [0..<length calls]"
  using assms
proof (induction calls arbitrary: self)
  case Nil
  then show ?case by simp
next
  case (Cons call calls)
  obtain m ps where c: "call = (m, ps)" by (cases call)
  from Cons.prems obtain p where "process self = Some p" by blast
  from send_request_started [OF this, of pr m ps] obtain r self1 request
    where s: "send_request pr self m ps = (r, self1, [request])"
      "item request ''id'' = Some (JInt (request_id self))"
      "request_id self1 = request_id self + 1" "process self1 \<noteq> None"
    by blast
  from Cons.IH [OF s(4)] s(3)
  have ih: "map (\<lambda>request. item request ''id'') (fst (send_requests pr self1 calls))
     = map (\<lambda>k. Some (JInt (request_id self + 1 + int k))) [0..<length calls]"
    by simp
  obtain sents self2 where r: "send_requests pr self1 calls = (sents, self2)"
    by (cases "send_requests pr self1 calls")
  from c s(1) r have "fst (send_requests pr self (call # calls)) = request # sents"
    by simp
  then have "map (\<lambda>request. item request ''id'') (fst (send_requests pr self (call # calls)))
      = Some (JInt (request_id self)) # map (\<lambda>request. item request ''id'') sents"
    using s(2) by simp
  also from ih r have "\<dots> = Some (JInt (request_id self))
        # map (\<lambda>k. Some (JInt (request_id self + 1 + int k))) [0..<length calls]"
    by simp
  also have "\<dots> = map (\<lambda>k. Some (JInt (request_id self + int k))) [0..<length (call # calls)]"
    by (simp add: upt_rec [of 0] map_Suc_upt [symmetric] add.assoc del: upt_Suc)
  finally show ?case .
qed

lemma start_server_True:
  assumes "start_server pr (MCPClient_init cmd) = (True, self)"
  shows "process self \<noteq> None \<and> request_id self = 1"
  using assms by (auto simp: start_server_def MCPClient_init_def split: sum.splits)

text \<open>
  C9. In a session, that is a client made by \<^verbatim>\<open>MCPClient(cmd)\<close> whose server has been
  started, the requests that successive \<^verbatim>\<open>send_request\<close> calls write carry the ids 1, 2,
  3 and so on in this order, whatever the peer answers and whichever calls raise; so no
  two of them carry the same id.
\<close>

theorem request_ids_increase_from_one:
  "start_server pr (MCPClient_init cmd) = (True, self) \<longrightarrow>
     map (\<lambda>request. item request ''id'') (fst (send_requests pr self calls))
       = map (\<lambda>k. Some (JInt (int k))) [1..<Suc (length calls)]
     \<and> distinct (map (\<lambda>request. item request ''id'') (fst (send_requests pr self calls)))"
proof
  assume a: "start_server pr (MCPClient_init cmd) = (True, self)"
  from start_server_True [OF a] have p: "process self \<noteq> None" and i: "request_id self = 1"
    by simp_all
  have "map (\<lambda>k. Some (JInt (1 + int k))) [0..<length calls]
      = map (\<lambda>k. Some (JInt (int k))) [1..<Suc (length calls)]"
    by (simp add: map_Suc_upt [symmetric] del: upt_Suc)
  with send_requests_ids [OF p, of pr calls] i
  have e: "map (\<lambda>request. item request ''id'') (fst (send_requests pr self calls))
       = map (\<lambda>k. Some (JInt (int k))) [1..<Suc (length calls)]"
    by simp
  have "distinct (map (\<lambda>k. Some (JInt (int k))) [1..<Suc (length calls)])"
    by (simp add: distinct_map inj_on_def del: upt_Suc)
  with e show "map (\<lambda>request. item request ''id'') (fst (send_requests pr self calls))
       = map (\<lambda>k. Some (JInt (int k))) [1..<Suc (length calls)]
     \<and> distinct (map (\<lambda>request. item request ''id'') (fst (send_requests pr self calls)))"
    by simp
qed

theorem request_ids_increase_from_one_witness:
  "start_server example_peer (MCPClient_init ''python3 file_directory_mcp_server.py'')
     = (True, \<lparr>server_command = ''python3 file_directory_mcp_server.py'',
               process = Some 0, request_id = 1\<rparr>)
   \<and> map (\<lambda>request. item request ''id'')
        (fst (send_requests example_peer
           \<lparr>server_command = ''python3 file_directory_mcp_server.py'',
            process = Some 0, request_id = 1\<rparr>
           [(''initialize'', None), (''tools/list'', None)]))
      = [Some (JInt 1), Some (JInt 2)]"
proof -
  let ?self = "\<lparr>server_command = ''python3 file_directory_mcp_server.py'',
            process = Some (0::nat), request_id = 1\<rparr>"
  have a: "start_server example_peer (MCPClient_init ''python3 file_directory_mcp_server.py'')
     = (True, ?self)"
    by (simp add: start_server_def MCPClient_init_def example_peer_def)
  from a request_ids_increase_from_one
    [where pr = example_peer and cmd = "''python3 file_directory_mcp_server.py''"
      and self = ?self and calls = "[(''initialize'', None), (''tools/list'', None)]"]
  have "map (\<lambda>request. item request ''id'')
        (fst (send_requests example_peer ?self [(''initialize'', None), (''tools/list'', None)]))
      = map (\<lambda>k. Some (JInt (int k)))
          [1..<Suc (length [(''initialize'', None :: (string \<times> json) list option),
                            (''tools/list'', None)])]"
    by blast
  also have "\<dots> = [Some (JInt 1), Some (JInt 2)]"
    by (simp add: upt_rec)
  finally show ?thesis using a by simp
qed

end
